theory Spec2Isabelle
  imports Main
begin

section \<open>JavaScript values of the request body\<close>

text \<open>
  \<^verbatim>\<open>app.use(express.json())\<close> parses the body, and the handlers of \<^verbatim>\<open>server.js\<close>
  destructure \<^verbatim>\<open>url\<close>, \<^verbatim>\<open>title\<close> and \<^verbatim>\<open>description\<close> from it with no check of
  their type. A field is therefore absent (\<^verbatim>\<open>undefined\<close>) or any JSON value. The type
  \<open>'n\<close> is the type of JSON numbers.
\<close>

datatype 'n jsval =
    JUndefined
  | JNull
  | JBool bool
  | JNumber 'n
  | JString string
  | JArray "'n jsval list"
  | JObject "(string \<times> 'n jsval) list"

text \<open>
  What the program uses of its libraries and is not in \<^verbatim>\<open>server.js\<close>:
  \<^item> \<open>isURL\<close>, the URL-syntax predicate of the validation library;
  \<^item> \<open>number_falsy\<close>, whether a number is falsy (zero);
  \<^item> \<open>number_string\<close>, the string JavaScript makes of a number;
  \<^item> \<open>number_text\<close>, the text a \<^verbatim>\<open>TEXT\<close> column holds after a number is bound to it;
  \<^item> \<open>array_string\<close>, the string the validation library makes of an array that is
    itself an element of an array field.
\<close>

record 'n library =
  isURL :: "string \<Rightarrow> bool"
  number_falsy :: "'n \<Rightarrow> bool"
  number_string :: "'n \<Rightarrow> string"
  number_text :: "'n \<Rightarrow> string"
  array_string :: "'n jsval list \<Rightarrow> string"

text \<open>
  Truthiness, as \<^verbatim>\<open>||\<close> reads it: \<^verbatim>\<open>undefined\<close>, \<^verbatim>\<open>null\<close>, \<^verbatim>\<open>false\<close>, zero and the
  empty string are falsy; arrays and objects are not.
\<close>

fun falsy :: "'n library \<Rightarrow> 'n jsval \<Rightarrow> bool" where
  "falsy lib JUndefined = True"
| "falsy lib JNull = True"
| "falsy lib (JBool b) = (\<not> b)"
| "falsy lib (JNumber n) = number_falsy lib n"
| "falsy lib (JString s) = (s = [])"
| "falsy lib (JArray xs) = False"
| "falsy lib (JObject kvs) = False"

text \<open>\<^verbatim>\<open>a || b\<close>\<close>

definition js_or :: "'n library \<Rightarrow> 'n jsval \<Rightarrow> 'n jsval \<Rightarrow> 'n jsval" where
  "js_or lib a b = (if falsy lib a then b else a)"

text \<open>\<^verbatim>\<open>a ?? b\<close>: only \<^verbatim>\<open>undefined\<close> and \<^verbatim>\<open>null\<close> give way to \<^verbatim>\<open>b\<close>.\<close>

fun nullish :: "'n jsval \<Rightarrow> bool" where
  "nullish JUndefined = True"
| "nullish JNull = True"
| "nullish (JBool b) = False"
| "nullish (JNumber n) = False"
| "nullish (JString s) = False"
| "nullish (JArray xs) = False"
| "nullish (JObject kvs) = False"

definition js_coalesce :: "'n jsval \<Rightarrow> 'n jsval \<Rightarrow> 'n jsval" where
  "js_coalesce a b = (if nullish a then b else a)"

text \<open>The destructured \<^verbatim>\<open>req.body\<close>.\<close>

record 'n body =
  url :: "'n jsval"
  title :: "'n jsval"
  description :: "'n jsval"

section \<open>The table \<^verbatim>\<open>bookmarks\<close>\<close>

text \<open>
  \<^verbatim>\<open>id TEXT PRIMARY KEY, url TEXT NOT NULL, title TEXT NOT NULL, description TEXT,
  created_at TEXT NOT NULL\<close>. A column declared \<^verbatim>\<open>NOT NULL\<close> holds a string, the
  nullable column a string or \<^verbatim>\<open>NULL\<close> (\<open>None\<close>). The table is the list of its rows;
  the constraints of the schema are checked by the statements below.
\<close>

record row =
  row_id :: string
  row_url :: string
  row_title :: string
  row_description :: "string option"
  row_created_at :: string

type_synonym table = "row list"

datatype db_error = StorageFault | ConstraintViolation

text \<open>
  Binding a statement parameter, and what the \<^verbatim>\<open>TEXT\<close> column then holds. \<^verbatim>\<open>null\<close>
  binds \<^verbatim>\<open>NULL\<close>, and a parameter that is \<^verbatim>\<open>undefined\<close> is left unbound, which the
  statement reads as \<^verbatim>\<open>NULL\<close>. A string is stored as it is. A boolean is bound as the
  integer 1 or 0 and a number as a number, which the column keeps as text. An array or
  an object is bound as the text \<^verbatim>\<open>[object Object]\<close>.
\<close>

fun bind_param :: "'n library \<Rightarrow> 'n jsval \<Rightarrow> string option" where
  "bind_param lib JUndefined = None"
| "bind_param lib JNull = None"
| "bind_param lib (JBool b) = Some (if b then ''1'' else ''0'')"
| "bind_param lib (JNumber n) = Some (number_text lib n)"
| "bind_param lib (JString s) = Some s"
| "bind_param lib (JArray xs) = Some ''[object Object]''"
| "bind_param lib (JObject kvs) = Some ''[object Object]''"

text \<open>
  Every statement takes a flag \<open>fault\<close>: whether the driver reports an error for this
  call (the \<^verbatim>\<open>err\<close> argument of the callback) for a reason outside the program, such
  as a failed read or write of the database file.
\<close>

text \<open>\<^verbatim>\<open>INSERT INTO bookmarks (id, url, title, description, created_at) VALUES (?, ?, ?, ?, ?)\<close>\<close>

definition sql_insert ::
  "'n library \<Rightarrow> bool \<Rightarrow> string \<Rightarrow> 'n jsval \<Rightarrow> 'n jsval \<Rightarrow> 'n jsval \<Rightarrow> string \<Rightarrow> table
     \<Rightarrow> db_error + table" where
  "sql_insert lib fault i u t d c tbl =
     (if fault then Inl StorageFault
      else case bind_param lib u of
        None \<Rightarrow> Inl ConstraintViolation
      | Some u' \<Rightarrow>
          (case bind_param lib t of
             None \<Rightarrow> Inl ConstraintViolation
           | Some t' \<Rightarrow>
               if i \<in> set (map row_id tbl) then Inl ConstraintViolation
               else Inr (tbl @ [\<lparr>row_id = i, row_url = u', row_title = t',
                                 row_description = bind_param lib d,
                                 row_created_at = c\<rparr>])))"

text \<open>\<^verbatim>\<open>SELECT * FROM bookmarks\<close>\<close>

definition sql_select_all :: "bool \<Rightarrow> table \<Rightarrow> db_error + row list" where
  "sql_select_all fault tbl = (if fault then Inl StorageFault else Inr tbl)"

text \<open>\<^verbatim>\<open>SELECT * FROM bookmarks WHERE id = ?\<close> through \<^verbatim>\<open>db.get\<close>: the first row, if any.\<close>

definition sql_select_by_id :: "bool \<Rightarrow> string \<Rightarrow> table \<Rightarrow> db_error + row option" where
  "sql_select_by_id fault i tbl =
     (if fault then Inl StorageFault else Inr (find (\<lambda>r. row_id r = i) tbl))"

text \<open>\<^verbatim>\<open>UPDATE bookmarks SET url = ?, title = ?, description = ? WHERE id = ?\<close>\<close>

definition sql_update ::
  "'n library \<Rightarrow> bool \<Rightarrow> 'n jsval \<Rightarrow> 'n jsval \<Rightarrow> 'n jsval \<Rightarrow> string \<Rightarrow> table
     \<Rightarrow> db_error + table" where
  "sql_update lib fault u t d i tbl =
     (if fault then Inl StorageFault
      else if i \<notin> set (map row_id tbl) then Inr tbl
      else case bind_param lib u of
        None \<Rightarrow> Inl ConstraintViolation
      | Some u' \<Rightarrow>
          (case bind_param lib t of
             None \<Rightarrow> Inl ConstraintViolation
           | Some t' \<Rightarrow>
               Inr (map (\<lambda>r. if row_id r = i
                              then r\<lparr>row_url := u', row_title := t',
                                     row_description := bind_param lib d\<rparr>
                              else r) tbl)))"

text \<open>
  \<^verbatim>\<open>DELETE FROM bookmarks WHERE id = ?\<close>: the new table and \<^verbatim>\<open>this.changes\<close>, the
  number of rows deleted.
\<close>

definition sql_delete :: "bool \<Rightarrow> string \<Rightarrow> table \<Rightarrow> db_error + (table \<times> nat)" where
  "sql_delete fault i tbl =
     (if fault then Inl StorageFault
      else Inr (filter (\<lambda>r. row_id r \<noteq> i) tbl, length (filter (\<lambda>r. row_id r = i) tbl)))"

section \<open>Responses\<close>

text \<open>
  The object given to \<^verbatim>\<open>res.json\<close> for a bookmark. A field that is \<^verbatim>\<open>undefined\<close>
  is dropped by the JSON serialisation: the client sees no such key.
\<close>

record 'n bookmark =
  bm_id :: "'n jsval"
  bm_url :: "'n jsval"
  bm_title :: "'n jsval"
  bm_description :: "'n jsval"
  bm_created_at :: "'n jsval"

text \<open>An entry of \<^verbatim>\<open>errors.array()\<close>: the field, the message and the offending value.\<close>

record 'n field_error =
  err_path :: string
  err_msg :: string
  err_value :: "'n jsval"

datatype 'n payload =
    Errors "'n field_error list"
  | Message string
  | Bookmark "'n bookmark"
  | Bookmarks "'n bookmark list"
  | Empty

record 'n response =
  status :: nat
  payload :: "'n payload"

text \<open>A row as the driver hands it to the callback.\<close>

definition row_object :: "row \<Rightarrow> 'n bookmark" where
  "row_object r =
     \<lparr>bm_id = JString (row_id r), bm_url = JString (row_url r),
      bm_title = JString (row_title r),
      bm_description = (case row_description r of None \<Rightarrow> JNull | Some d \<Rightarrow> JString d),
      bm_created_at = JString (row_created_at r)\<rparr>"

section \<open>Validation chains\<close>

text \<open>
  The validators of the library work on strings, so the library first makes a string of
  the value: an absent or \<^verbatim>\<open>null\<close> value reads as the empty string, a plain object as
  \<^verbatim>\<open>[object Object]\<close>.
\<close>

fun toString :: "'n library \<Rightarrow> 'n jsval \<Rightarrow> string" where
  "toString lib JUndefined = []"
| "toString lib JNull = []"
| "toString lib (JBool b) = (if b then ''true'' else ''false'')"
| "toString lib (JNumber n) = number_string lib n"
| "toString lib (JString s) = s"
| "toString lib (JArray xs) = array_string lib xs"
| "toString lib (JObject kvs) = ''[object Object]''"

text \<open>
  A validator of a chain runs once on the field, unless the field is an array: then it
  runs once on each element, and so not at all on the empty array.
\<close>

fun field_values :: "'n jsval \<Rightarrow> 'n jsval list" where
  "field_values (JArray xs) = xs"
| "field_values JUndefined = [JUndefined]"
| "field_values JNull = [JNull]"
| "field_values (JBool b) = [JBool b]"
| "field_values (JNumber n) = [JNumber n]"
| "field_values (JString s) = [JString s]"
| "field_values (JObject kvs) = [JObject kvs]"

text \<open>
  \<^verbatim>\<open>body(path).isURL().withMessage(msg)\<close> and \<^verbatim>\<open>body(path).notEmpty().withMessage(msg)\<close>
  on the value \<open>x\<close> of the field: one error for each value the validator rejects.
  \<^verbatim>\<open>notEmpty\<close> holds of a string of length other than zero.
\<close>

definition chain_isURL :: "'n library \<Rightarrow> string \<Rightarrow> string \<Rightarrow> 'n jsval \<Rightarrow> 'n field_error list" where
  "chain_isURL lib path msg x =
     map (\<lambda>v. \<lparr>err_path = path, err_msg = msg, err_value = v\<rparr>)
       (filter (\<lambda>v. \<not> isURL lib (toString lib v)) (field_values x))"

definition chain_notEmpty :: "'n library \<Rightarrow> string \<Rightarrow> string \<Rightarrow> 'n jsval \<Rightarrow> 'n field_error list" where
  "chain_notEmpty lib path msg x =
     map (\<lambda>v. \<lparr>err_path = path, err_msg = msg, err_value = v\<rparr>)
       (filter (\<lambda>v. toString lib v = []) (field_values x))"

text \<open>
  \<^verbatim>\<open>body("url").isURL().withMessage("Invalid URL"),
  body("title").notEmpty().withMessage("Title is required")\<close>
\<close>

definition validate_create :: "'n library \<Rightarrow> 'n body \<Rightarrow> 'n field_error list" where
  "validate_create lib b =
     chain_isURL lib ''url'' ''Invalid URL'' (url b) @
     chain_notEmpty lib ''title'' ''Title is required'' (title b)"

text \<open>
  \<^verbatim>\<open>body("url").optional().isURL().withMessage("Invalid URL"),
  body("title").optional().notEmpty().withMessage("Title cannot be empty")\<close>:
  \<^verbatim>\<open>optional()\<close> skips the chain when the field is \<^verbatim>\<open>undefined\<close>.
\<close>

definition validate_update :: "'n library \<Rightarrow> 'n body \<Rightarrow> 'n field_error list" where
  "validate_update lib b =
     (if url b = JUndefined then []
      else chain_isURL lib ''url'' ''Invalid URL'' (url b)) @
     (if title b = JUndefined then []
      else chain_notEmpty lib ''title'' ''Title cannot be empty'' (title b))"

section \<open>Route handlers\<close>

text \<open>
  A handler takes the table and returns the response and the table after the request.
  \<open>uuid\<close> is what \<^verbatim>\<open>uuidv4()\<close> returns for this request, \<open>now\<close> what
  \<^verbatim>\<open>new Date().toISOString()\<close> returns.
\<close>

definition database_error :: "'n response" where
  "database_error = \<lparr>status = 500, payload = Message ''Database error''\<rparr>"

definition not_found :: "'n response" where
  "not_found = \<lparr>status = 404, payload = Message ''Bookmark not found''\<rparr>"

text \<open>\<^verbatim>\<open>app.post("/bookmarks", ...)\<close>\<close>

definition post_bookmarks ::
  "'n library \<Rightarrow> string \<Rightarrow> string \<Rightarrow> bool \<Rightarrow> 'n body \<Rightarrow> table \<Rightarrow> 'n response \<times> table" where
  "post_bookmarks lib uuid now fault b tbl =
     (let errors = validate_create lib b in
      if errors \<noteq> [] then (\<lparr>status = 400, payload = Errors errors\<rparr>, tbl)
      else
        case sql_insert lib fault uuid (url b) (title b) (js_or lib (description b) JNull)
               now tbl of
          Inl err \<Rightarrow> (database_error, tbl)
        | Inr tbl' \<Rightarrow>
            (\<lparr>status = 201,
              payload = Bookmark \<lparr>bm_id = JString uuid, bm_url = url b, bm_title = title b,
                                  bm_description = description b,
                                  bm_created_at = JString now\<rparr>\<rparr>, tbl'))"

text \<open>\<^verbatim>\<open>app.get("/bookmarks", ...)\<close>\<close>

definition get_bookmarks :: "bool \<Rightarrow> table \<Rightarrow> 'n response \<times> table" where
  "get_bookmarks fault tbl =
     (case sql_select_all fault tbl of
        Inl err \<Rightarrow> (database_error, tbl)
      | Inr rows \<Rightarrow> (\<lparr>status = 200, payload = Bookmarks (map row_object rows)\<rparr>, tbl))"

text \<open>\<^verbatim>\<open>app.get("/bookmarks/:id", ...)\<close>\<close>

definition get_bookmark :: "bool \<Rightarrow> string \<Rightarrow> table \<Rightarrow> 'n response \<times> table" where
  "get_bookmark fault i tbl =
     (case sql_select_by_id fault i tbl of
        Inl err \<Rightarrow> (database_error, tbl)
      | Inr None \<Rightarrow> (not_found, tbl)
      | Inr (Some r) \<Rightarrow> (\<lparr>status = 200, payload = Bookmark (row_object r)\<rparr>, tbl))"

text \<open>
  \<^verbatim>\<open>app.put("/bookmarks/:id", ...)\<close>; \<open>fault1\<close> is the flag of the lookup, \<open>fault2\<close>
  that of the write. \<open>updatedBookmark\<close> is the object of the three merged fields; the
  write binds its fields, and the response spreads it over the row read.
\<close>

definition updatedBookmark :: "'n body \<Rightarrow> 'n bookmark \<Rightarrow> 'n body" where
  "updatedBookmark b bm =
     \<lparr>url = js_coalesce (url b) (bm_url bm),
      title = js_coalesce (title b) (bm_title bm),
      description = js_coalesce (description b) (bm_description bm)\<rparr>"

definition put_bookmark ::
  "'n library \<Rightarrow> bool \<Rightarrow> bool \<Rightarrow> string \<Rightarrow> 'n body \<Rightarrow> table \<Rightarrow> 'n response \<times> table" where
  "put_bookmark lib fault1 fault2 i b tbl =
     (let errors = validate_update lib b in
      if errors \<noteq> [] then (\<lparr>status = 400, payload = Errors errors\<rparr>, tbl)
      else
        case sql_select_by_id fault1 i tbl of
          Inl err \<Rightarrow> (database_error, tbl)
        | Inr None \<Rightarrow> (not_found, tbl)
        | Inr (Some r) \<Rightarrow>
            (let bm = row_object r; upd = updatedBookmark b bm in
             case sql_update lib fault2 (url upd) (title upd) (description upd) i tbl of
               Inl err \<Rightarrow> (database_error, tbl)
             | Inr tbl' \<Rightarrow>
                 (\<lparr>status = 200,
                   payload = Bookmark (bm\<lparr>bm_url := url upd, bm_title := title upd,
                                          bm_description := description upd\<rparr>)\<rparr>, tbl')))"

text \<open>\<^verbatim>\<open>app.delete("/bookmarks/:id", ...)\<close>\<close>

definition delete_bookmark :: "bool \<Rightarrow> string \<Rightarrow> table \<Rightarrow> 'n response \<times> table" where
  "delete_bookmark fault i tbl =
     (case sql_delete fault i tbl of
        Inl err \<Rightarrow> (database_error, tbl)
      | Inr (tbl', changes) \<Rightarrow>
          if changes = 0 then (not_found, tbl)
          else (\<lparr>status = 204, payload = Empty\<rparr>, tbl'))"

section \<open>The service as a transition system\<close>

text \<open>
  A request carries what the handler reads from outside the program: the path id, the
  body, the fault flags of its storage calls and, for a create, the id and timestamp
  generated for it.
\<close>

datatype 'n request =
    Create string string bool "'n body"
  | List bool
  | Get bool string
  | Update bool bool string "'n body"
  | Delete bool string

fun handle :: "'n library \<Rightarrow> 'n request \<Rightarrow> table \<Rightarrow> 'n response \<times> table" where
  "handle lib (Create uuid now fault b) tbl = post_bookmarks lib uuid now fault b tbl"
| "handle lib (List fault) tbl = get_bookmarks fault tbl"
| "handle lib (Get fault i) tbl = get_bookmark fault i tbl"
| "handle lib (Update fault1 fault2 i b) tbl = put_bookmark lib fault1 fault2 i b tbl"
| "handle lib (Delete fault i) tbl = delete_bookmark fault i tbl"

text \<open>The tables the service can hold, starting from the empty table of a new database.\<close>

inductive reachable :: "'n library \<Rightarrow> table \<Rightarrow> bool" for lib where
  initial: "reachable lib []"
| request: "reachable lib tbl \<Longrightarrow> reachable lib (snd (handle lib rq tbl))"

text \<open>
  What the schema and the validation chains are to maintain: the primary key is unique,
  and no row has an empty url or title.
\<close>

definition table_ok :: "table \<Rightarrow> bool" where
  "table_ok tbl \<longleftrightarrow>
     distinct (map row_id tbl) \<and> (\<forall>r \<in> set tbl. row_url r \<noteq> [] \<and> row_title r \<noteq> [])"

section \<open>Facts about the statements and the validation chains\<close>

lemma find_row_id:
  "find (\<lambda>r. row_id r = i) tbl = Some r \<Longrightarrow> row_id r = i \<and> r \<in> set tbl"
  by (auto simp: find_Some_iff)

lemma find_absent: "i \<notin> row_id ` set tbl \<Longrightarrow> find (\<lambda>r. row_id r = i) tbl = None"
  by (auto simp: find_None_iff)

lemma find_present:
  "i \<in> row_id ` set tbl \<Longrightarrow> \<exists>r. find (\<lambda>r. row_id r = i) tbl = Some r"
  by (cases "find (\<lambda>r. row_id r = i) tbl") (auto simp: find_None_iff)

lemma find_append_fresh:
  "i \<notin> row_id ` set tbl \<Longrightarrow> row_id r = i \<Longrightarrow>
   find (\<lambda>r. row_id r = i) (tbl @ [r]) = Some r"
  by (induction tbl) auto

lemma find_append_present:
  "find (\<lambda>r. row_id r = i) tbl = Some r \<Longrightarrow>
   find (\<lambda>r. row_id r = i) (tbl @ rs) = Some r"
  by (induction tbl) (auto split: if_splits)

lemma find_map_same:
  "find (\<lambda>r. row_id r = i) (map (\<lambda>r. if row_id r = i then f r else r) tbl) =
     map_option f (find (\<lambda>r. row_id r = i) tbl)"
  if "\<And>r. row_id (f r) = row_id r"
  using that by (induction tbl) auto

lemma find_map_other:
  "j \<noteq> i \<Longrightarrow>
   find (\<lambda>r. row_id r = j) (map (\<lambda>r. if row_id r = i then f r else r) tbl) =
     find (\<lambda>r. row_id r = j) tbl"
  if "\<And>r. row_id (f r) = row_id r"
  using that by (induction tbl) auto

lemma find_filter_other:
  "j \<noteq> i \<Longrightarrow>
   find (\<lambda>r. row_id r = j) (filter (\<lambda>r. row_id r \<noteq> i) tbl) = find (\<lambda>r. row_id r = j) tbl"
  by (induction tbl) auto

lemma find_filter_same:
  "find (\<lambda>r. row_id r = i) (filter (\<lambda>r. row_id r \<noteq> i) tbl) = None"
  by (simp add: find_None_iff)

lemma distinct_at_most_one:
  "distinct (map row_id tbl) \<Longrightarrow> length (filter (\<lambda>r. row_id r = i) tbl) \<le> 1"
proof (induction tbl)
  case Nil
  then show ?case by simp
next
  case (Cons a tbl)
  show ?case
  proof (cases "row_id a = i")
    case True
    with Cons.prems have "i \<notin> row_id ` set tbl" by simp
    then have "filter (\<lambda>r. row_id r = i) tbl = []"
      by (auto simp: filter_empty_conv)
    with True show ?thesis by simp
  next
    case False
    with Cons show ?thesis by simp
  qed
qed

text \<open>When the chains accept a field.\<close>

lemma chain_isURL_Nil:
  "chain_isURL lib path msg x = [] \<longleftrightarrow>
     (\<forall>v \<in> set (field_values x). isURL lib (toString lib v))"
  by (auto simp: chain_isURL_def filter_empty_conv)

lemma chain_notEmpty_Nil:
  "chain_notEmpty lib path msg x = [] \<longleftrightarrow>
     (\<forall>v \<in> set (field_values x). toString lib v \<noteq> [])"
  by (auto simp: chain_notEmpty_def filter_empty_conv)

lemma validate_create_Nil:
  "validate_create lib b = [] \<longleftrightarrow>
     (\<forall>v \<in> set (field_values (url b)). isURL lib (toString lib v)) \<and>
     (\<forall>v \<in> set (field_values (title b)). toString lib v \<noteq> [])"
  by (simp add: validate_create_def chain_isURL_Nil chain_notEmpty_Nil)

lemma validate_update_Nil:
  "validate_update lib b = [] \<longleftrightarrow>
     (url b = JUndefined \<or> (\<forall>v \<in> set (field_values (url b)). isURL lib (toString lib v))) \<and>
     (title b = JUndefined \<or> (\<forall>v \<in> set (field_values (title b)). toString lib v \<noteq> []))"
  by (simp add: validate_update_def chain_isURL_Nil chain_notEmpty_Nil)

text \<open>
  A field accepted by a validator that rejects the empty string is neither absent nor
  \<^verbatim>\<open>null\<close>, so it binds to a text; the text is not empty.
\<close>

lemma accepted_binds:
  assumes "\<not> P []" and "\<forall>v \<in> set (field_values x). P (toString lib v)"
  shows "\<exists>u. bind_param lib x = Some u"
  using assms by (cases x) auto

lemma accepted_text_nonempty:
  assumes "\<not> P []" and "\<forall>n. number_text lib n \<noteq> []"
    and "\<forall>v \<in> set (field_values x). P (toString lib v)"
    and "bind_param lib x = Some u"
  shows "u \<noteq> []"
  using assms by (cases x) (auto split: if_splits)

lemma accepted_string:
  "\<forall>v \<in> set (field_values (JString s)). P (toString lib v) \<Longrightarrow> P s"
  by simp

text \<open>The merge of a field with the prior value of its column, and what is bound.\<close>

lemma bind_coalesce:
  "\<exists>u. bind_param lib (js_coalesce x (JString p)) = Some u
      \<and> (nullish x \<longrightarrow> u = p) \<and> (\<forall>s. x = JString s \<longrightarrow> u = s)
      \<and> (\<not> nullish x \<longrightarrow> bind_param lib x = Some u)"
  by (cases x) (simp_all add: js_coalesce_def)

lemma bind_coalesce_description:
  "bind_param lib (js_coalesce x (case p of None \<Rightarrow> JNull | Some d \<Rightarrow> JString d)) =
     (if nullish x then p else bind_param lib x)"
  by (cases x; cases p) (simp_all add: js_coalesce_def)

text \<open>The handlers on their paths.\<close>

lemma post_bookmarks_rejected:
  "validate_create lib b \<noteq> [] \<Longrightarrow>
   post_bookmarks lib uuid now fault b tbl =
     (\<lparr>status = 400, payload = Errors (validate_create lib b)\<rparr>, tbl)"
  by (simp add: post_bookmarks_def Let_def)

lemma put_bookmark_rejected:
  "validate_update lib b \<noteq> [] \<Longrightarrow>
   put_bookmark lib fault1 fault2 i b tbl =
     (\<lparr>status = 400, payload = Errors (validate_update lib b)\<rparr>, tbl)"
  by (simp add: put_bookmark_def Let_def)

lemma put_bookmark_missing:
  "validate_update lib b = [] \<Longrightarrow> i \<notin> row_id ` set tbl \<Longrightarrow>
   put_bookmark lib False fault2 i b tbl =
     (\<lparr>status = 404, payload = Message ''Bookmark not found''\<rparr>, tbl)"
  by (simp add: put_bookmark_def sql_select_by_id_def find_absent not_found_def)

lemma delete_bookmark_missing:
  "i \<notin> row_id ` set tbl \<Longrightarrow>
   delete_bookmark False i tbl =
     (\<lparr>status = 404, payload = Message ''Bookmark not found''\<rparr>, tbl)"
proof -
  assume "i \<notin> row_id ` set tbl"
  then have "filter (\<lambda>r. row_id r = i) tbl = []"
    by (auto simp: filter_empty_conv)
  then show ?thesis
    by (simp add: delete_bookmark_def sql_delete_def not_found_def)
qed

lemma delete_bookmark_present:
  "i \<in> row_id ` set tbl \<Longrightarrow>
   delete_bookmark False i tbl =
     (\<lparr>status = 204, payload = Empty\<rparr>, filter (\<lambda>r. row_id r \<noteq> i) tbl)"
proof -
  assume "i \<in> row_id ` set tbl"
  then have "filter (\<lambda>r. row_id r = i) tbl \<noteq> []"
    by (auto simp: filter_empty_conv)
  then show ?thesis
    by (simp add: delete_bookmark_def sql_delete_def)
qed

lemma get_bookmark_found:
  "find (\<lambda>r. row_id r = i) tbl = Some r \<Longrightarrow>
   get_bookmark False i tbl = (\<lparr>status = 200, payload = Bookmark (row_object r)\<rparr>, tbl)"
  by (simp add: get_bookmark_def sql_select_by_id_def)

lemma sql_insert_fresh:
  "uuid \<notin> row_id ` set tbl \<Longrightarrow> bind_param lib u = Some u' \<Longrightarrow>
   bind_param lib t = Some t' \<Longrightarrow>
   sql_insert lib False uuid u t d now tbl =
     Inr (tbl @ [\<lparr>row_id = uuid, row_url = u', row_title = t',
                   row_description = bind_param lib d, row_created_at = now\<rparr>])"
  by (simp add: sql_insert_def)

lemma post_bookmarks_created:
  assumes e: "\<not> isURL lib []" and v: "validate_create lib b = []"
    and f: "uuid \<notin> row_id ` set tbl"
  shows "\<exists>u t. bind_param lib (url b) = Some u \<and> bind_param lib (title b) = Some t \<and>
    post_bookmarks lib uuid now False b tbl =
     (\<lparr>status = 201,
       payload = Bookmark \<lparr>bm_id = JString uuid, bm_url = url b, bm_title = title b,
                           bm_description = description b, bm_created_at = JString now\<rparr>\<rparr>,
      tbl @ [\<lparr>row_id = uuid, row_url = u, row_title = t,
               row_description = bind_param lib (js_or lib (description b) JNull),
               row_created_at = now\<rparr>])"
proof -
  from v have ok: "\<forall>v \<in> set (field_values (url b)). isURL lib (toString lib v)"
    "\<forall>v \<in> set (field_values (title b)). toString lib v \<noteq> []"
    by (simp_all add: validate_create_Nil)
  from accepted_binds [of "isURL lib", OF e ok(1)]
  obtain u where u: "bind_param lib (url b) = Some u" by blast
  from accepted_binds [of "\<lambda>s. s \<noteq> []" "title b" lib] ok(2)
  obtain t where t: "bind_param lib (title b) = Some t" by blast
  have "post_bookmarks lib uuid now False b tbl =
     (\<lparr>status = 201,
       payload = Bookmark \<lparr>bm_id = JString uuid, bm_url = url b, bm_title = title b,
                           bm_description = description b, bm_created_at = JString now\<rparr>\<rparr>,
      tbl @ [\<lparr>row_id = uuid, row_url = u, row_title = t,
               row_description = bind_param lib (js_or lib (description b) JNull),
               row_created_at = now\<rparr>])"
    using v by (simp add: post_bookmarks_def sql_insert_fresh [OF f u t])
  with u t show ?thesis by blast
qed

lemma sql_update_present:
  "i \<in> row_id ` set tbl \<Longrightarrow> bind_param lib u = Some u' \<Longrightarrow>
   bind_param lib t = Some t' \<Longrightarrow>
   sql_update lib False u t d i tbl =
     Inr (map (\<lambda>r. if row_id r = i
                    then r\<lparr>row_url := u', row_title := t',
                           row_description := bind_param lib d\<rparr>
                    else r) tbl)"
  by (simp add: sql_update_def)

text \<open>
  An update that passes validation and finds its row, with no storage fault: the answer
  carries the merged values as they are, the row their bound texts.
\<close>

lemma put_bookmark_updated:
  assumes v: "validate_update lib b = []"
    and r: "find (\<lambda>r. row_id r = i) tbl = Some r"
  shows "\<exists>u t.
     bind_param lib (js_coalesce (url b) (JString (row_url r))) = Some u \<and>
     bind_param lib (js_coalesce (title b) (JString (row_title r))) = Some t \<and>
     put_bookmark lib False False i b tbl =
     (\<lparr>status = 200,
       payload = Bookmark
         \<lparr>bm_id = JString (row_id r),
          bm_url = js_coalesce (url b) (JString (row_url r)),
          bm_title = js_coalesce (title b) (JString (row_title r)),
          bm_description = js_coalesce (description b)
            (case row_description r of None \<Rightarrow> JNull | Some d \<Rightarrow> JString d),
          bm_created_at = JString (row_created_at r)\<rparr>\<rparr>,
      map (\<lambda>x. if row_id x = i
                then x\<lparr>row_url := u, row_title := t,
                       row_description :=
                         (if nullish (description b) then row_description r
                          else bind_param lib (description b))\<rparr>
                else x) tbl)"
proof -
  let ?bm = "row_object r :: 'a bookmark"
  let ?upd = "updatedBookmark b ?bm"
  obtain u where u: "bind_param lib (js_coalesce (url b) (JString (row_url r))) = Some u"
    using bind_coalesce [of lib "url b" "row_url r"] by blast
  obtain t where t: "bind_param lib (js_coalesce (title b) (JString (row_title r))) = Some t"
    using bind_coalesce [of lib "title b" "row_title r"] by blast
  have p: "i \<in> row_id ` set tbl"
    using find_row_id [OF r] by blast
  have fu: "url ?upd = js_coalesce (url b) (JString (row_url r))"
    and ft: "title ?upd = js_coalesce (title b) (JString (row_title r))"
    and fd: "description ?upd = js_coalesce (description b)
            (case row_description r of None \<Rightarrow> JNull | Some d \<Rightarrow> JString d)"
    by (simp_all add: updatedBookmark_def row_object_def)
  have bu: "bind_param lib (url ?upd) = Some u" and bt: "bind_param lib (title ?upd) = Some t"
    by (simp_all only: fu ft u t)
  have bd: "bind_param lib (description ?upd) =
      (if nullish (description b) then row_description r else bind_param lib (description b))"
    by (simp only: fd bind_coalesce_description)
  have w: "sql_update lib False (url ?upd) (title ?upd) (description ?upd) i tbl =
     Inr (map (\<lambda>x. if row_id x = i
                then x\<lparr>row_url := u, row_title := t,
                       row_description :=
                         (if nullish (description b) then row_description r
                          else bind_param lib (description b))\<rparr>
                else x) tbl)"
    using sql_update_present [OF p bu bt, of "description ?upd"] by (simp only: bd)
  have o: "?bm\<lparr>bm_url := url ?upd, bm_title := title ?upd,
              bm_description := description ?upd\<rparr> =
         \<lparr>bm_id = JString (row_id r),
          bm_url = js_coalesce (url b) (JString (row_url r)),
          bm_title = js_coalesce (title b) (JString (row_title r)),
          bm_description = js_coalesce (description b)
            (case row_description r of None \<Rightarrow> JNull | Some d \<Rightarrow> JString d),
          bm_created_at = JString (row_created_at r)\<rparr>"
    by (simp only: fu ft fd) (simp add: row_object_def)
  have "put_bookmark lib False False i b tbl =
     (\<lparr>status = 200,
       payload = Bookmark
         \<lparr>bm_id = JString (row_id r),
          bm_url = js_coalesce (url b) (JString (row_url r)),
          bm_title = js_coalesce (title b) (JString (row_title r)),
          bm_description = js_coalesce (description b)
            (case row_description r of None \<Rightarrow> JNull | Some d \<Rightarrow> JString d),
          bm_created_at = JString (row_created_at r)\<rparr>\<rparr>,
      map (\<lambda>x. if row_id x = i
                then x\<lparr>row_url := u, row_title := t,
                       row_description :=
                         (if nullish (description b) then row_description r
                          else bind_param lib (description b))\<rparr>
                else x) tbl)"
    unfolding put_bookmark_def Let_def
    using v r by (simp add: sql_select_by_id_def w o)
  with u t show ?thesis by blast
qed

text \<open>What a request can do to the table.\<close>

lemma post_bookmarks_table:
  "snd (post_bookmarks lib uuid now fault b tbl) = tbl \<or>
   (validate_create lib b = [] \<and> uuid \<notin> row_id ` set tbl \<and>
    (\<exists>u t. bind_param lib (url b) = Some u \<and> bind_param lib (title b) = Some t \<and>
      snd (post_bookmarks lib uuid now fault b tbl) =
        tbl @ [\<lparr>row_id = uuid, row_url = u, row_title = t,
                 row_description = bind_param lib (js_or lib (description b) JNull),
                 row_created_at = now\<rparr>]))"
proof (cases "validate_create lib b = []")
  case False
  then show ?thesis by (simp add: post_bookmarks_rejected)
next
  case True
  then show ?thesis
    by (cases "bind_param lib (url b)"; cases "bind_param lib (title b)")
       (simp_all add: post_bookmarks_def sql_insert_def database_error_def)
qed

lemma post_bookmarks_201:
  assumes "status (fst (post_bookmarks lib uuid now fault b tbl)) = 201"
  shows "uuid \<notin> row_id ` set tbl \<and>
    (\<exists>u t. snd (post_bookmarks lib uuid now fault b tbl) =
        tbl @ [\<lparr>row_id = uuid, row_url = u, row_title = t,
                 row_description = bind_param lib (js_or lib (description b) JNull),
                 row_created_at = now\<rparr>])"
proof (cases "validate_create lib b = []")
  case False
  with assms show ?thesis by (simp add: post_bookmarks_rejected)
next
  case True
  with assms show ?thesis
    by (cases "bind_param lib (url b)"; cases "bind_param lib (title b)")
       (simp_all add: post_bookmarks_def sql_insert_def database_error_def split: if_splits)
qed

lemma put_bookmark_table:
  "snd (put_bookmark lib fault1 fault2 i b tbl) = tbl \<or>
   (validate_update lib b = [] \<and>
    (\<exists>r u t. find (\<lambda>x. row_id x = i) tbl = Some r \<and>
      bind_param lib (js_coalesce (url b) (JString (row_url r))) = Some u \<and>
      bind_param lib (js_coalesce (title b) (JString (row_title r))) = Some t \<and>
      snd (put_bookmark lib fault1 fault2 i b tbl) =
        map (\<lambda>x. if row_id x = i
                then x\<lparr>row_url := u, row_title := t,
                       row_description :=
                         (if nullish (description b) then row_description r
                          else bind_param lib (description b))\<rparr>
                else x) tbl))"
proof (cases "validate_update lib b = []")
  case False
  then show ?thesis by (simp add: put_bookmark_rejected)
next
  case v: True
  show ?thesis
  proof (cases "fault1 \<or> fault2")
    case True
    then show ?thesis
      by (auto simp: put_bookmark_def Let_def sql_select_by_id_def sql_update_def
          database_error_def not_found_def split: option.splits)
  next
    case nf: False
    show ?thesis
    proof (cases "find (\<lambda>x. row_id x = i) tbl")
      case None
      then show ?thesis
        using nf by (simp add: put_bookmark_def Let_def sql_select_by_id_def)
    next
      case (Some r)
      from put_bookmark_updated [OF v Some]
      obtain u t where
        "bind_param lib (js_coalesce (url b) (JString (row_url r))) = Some u"
        "bind_param lib (js_coalesce (title b) (JString (row_title r))) = Some t"
        "snd (put_bookmark lib False False i b tbl) =
          map (\<lambda>x. if row_id x = i
                then x\<lparr>row_url := u, row_title := t,
                       row_description :=
                         (if nullish (description b) then row_description r
                          else bind_param lib (description b))\<rparr>
                else x) tbl"
        by fastforce
      with nf v Some show ?thesis by auto
    qed
  qed
qed

text \<open>The requests maintain \<open>table_ok\<close>.\<close>

lemma merged_text_nonempty:
  assumes "\<not> P []" and "\<forall>n. number_text lib n \<noteq> []"
    and "x = JUndefined \<or> (\<forall>v \<in> set (field_values x). P (toString lib v))"
    and "p \<noteq> []"
    and "bind_param lib (js_coalesce x (JString p)) = Some u"
  shows "u \<noteq> []"
  using assms by (cases x) (auto simp: js_coalesce_def split: if_splits)

lemma table_ok_post:
  assumes e: "\<not> isURL lib []" and n: "\<forall>n. number_text lib n \<noteq> []" and ok: "table_ok tbl"
  shows "table_ok (snd (post_bookmarks lib uuid now fault b tbl))"
  using post_bookmarks_table [of lib uuid now fault b tbl]
proof (elim disjE conjE exE)
  assume "snd (post_bookmarks lib uuid now fault b tbl) = tbl"
  with ok show ?thesis by simp
next
  fix u t
  assume v: "validate_create lib b = []" and f: "uuid \<notin> row_id ` set tbl"
    and bu: "bind_param lib (url b) = Some u" and bt: "bind_param lib (title b) = Some t"
    and s: "snd (post_bookmarks lib uuid now fault b tbl) =
        tbl @ [\<lparr>row_id = uuid, row_url = u, row_title = t,
                 row_description = bind_param lib (js_or lib (description b) JNull),
                 row_created_at = now\<rparr>]"
  from v have a: "\<forall>v \<in> set (field_values (url b)). isURL lib (toString lib v)"
    "\<forall>v \<in> set (field_values (title b)). toString lib v \<noteq> []"
    by (simp_all add: validate_create_Nil)
  have "u \<noteq> []"
    by (rule accepted_text_nonempty [of "isURL lib", OF e n a(1) bu])
  moreover have "t \<noteq> []"
    using accepted_text_nonempty [of "\<lambda>s. s \<noteq> []" lib "title b" t] n a(2) bt by simp
  ultimately show ?thesis
    using ok f unfolding s table_ok_def by auto
qed

lemma table_ok_put:
  assumes e: "\<not> isURL lib []" and n: "\<forall>n. number_text lib n \<noteq> []" and ok: "table_ok tbl"
  shows "table_ok (snd (put_bookmark lib fault1 fault2 i b tbl))"
  using put_bookmark_table [of lib fault1 fault2 i b tbl]
proof (elim disjE conjE exE)
  assume "snd (put_bookmark lib fault1 fault2 i b tbl) = tbl"
  with ok show ?thesis by simp
next
  fix r :: row and u t
  let ?d = "if nullish (description b) then row_description r
            else bind_param lib (description b)"
  let ?g = "\<lambda>x. if row_id x = i
                then x\<lparr>row_url := u, row_title := t, row_description := ?d\<rparr> else x"
  assume v: "validate_update lib b = []"
    and r: "find (\<lambda>x. row_id x = i) tbl = Some r"
    and bu: "bind_param lib (js_coalesce (url b) (JString (row_url r))) = Some u"
    and bt: "bind_param lib (js_coalesce (title b) (JString (row_title r))) = Some t"
    and s: "snd (put_bookmark lib fault1 fault2 i b tbl) = map ?g tbl"
  from find_row_id [OF r] ok have rok: "row_url r \<noteq> []" "row_title r \<noteq> []"
    by (auto simp: table_ok_def)
  from v have vv:
    "url b = JUndefined \<or> (\<forall>v \<in> set (field_values (url b)). isURL lib (toString lib v))"
    "title b = JUndefined \<or> (\<forall>v \<in> set (field_values (title b)). toString lib v \<noteq> [])"
    by (simp_all add: validate_update_Nil)
  have u: "u \<noteq> []"
    by (rule merged_text_nonempty [of "isURL lib", OF e n vv(1) rok(1) bu])
  have t: "t \<noteq> []"
    using merged_text_nonempty [of "\<lambda>s. s \<noteq> []" lib "title b" "row_title r" t]
      n vv(2) rok(2) bt by simp
  have ids: "map row_id (map ?g tbl) = map row_id tbl"
    by (induction tbl) auto
  have rows: "\<forall>x \<in> set (map ?g tbl). row_url x \<noteq> [] \<and> row_title x \<noteq> []"
    using ok u t by (auto simp: table_ok_def)
  have "distinct (map row_id tbl)"
    using ok by (simp add: table_ok_def)
  then have "distinct (map row_id (map ?g tbl))"
    by (simp only: ids)
  with rows show ?thesis
    unfolding s table_ok_def by (rule conjI [rotated])
qed

lemma table_ok_delete:
  assumes ok: "table_ok tbl"
  shows "table_ok (snd (delete_bookmark fault i tbl))"
  using ok
  by (auto simp: delete_bookmark_def sql_delete_def table_ok_def distinct_map_filter)

lemma table_ok_handle:
  assumes e: "\<not> isURL lib []" and n: "\<forall>n. number_text lib n \<noteq> []" and ok: "table_ok tbl"
  shows "table_ok (snd (handle lib rq tbl))"
proof (cases rq)
  case (Create uuid now fault b)
  show ?thesis unfolding Create handle.simps by (rule table_ok_post [OF e n ok])
next
  case (List fault)
  with ok show ?thesis
    by (simp add: get_bookmarks_def sql_select_all_def)
next
  case (Get fault i)
  with ok show ?thesis
    by (simp add: get_bookmark_def sql_select_by_id_def split: option.split)
next
  case (Update fault1 fault2 i b)
  show ?thesis unfolding Update handle.simps by (rule table_ok_put [OF e n ok])
next
  case (Delete fault i)
  show ?thesis unfolding Delete handle.simps by (rule table_ok_delete [OF ok])
qed

lemma reachable_table_ok:
  assumes e: "\<not> isURL lib []" and n: "\<forall>n. number_text lib n \<noteq> []"
    and r: "reachable lib tbl"
  shows "table_ok tbl"
  using r
proof (induction rule: reachable.induct)
  case initial
  show ?case by (simp add: table_ok_def)
next
  case (request tbl rq)
  with e n show ?case by (simp add: table_ok_handle)
qed

text \<open>No request changes the created_at of a row it leaves in the table.\<close>

lemma post_bookmarks_created_at:
  assumes a: "find (\<lambda>x. row_id x = i) tbl = Some r"
    and b: "find (\<lambda>x. row_id x = i) (snd (post_bookmarks lib uuid now fault bd tbl)) = Some r'"
  shows "r' = r"
  using post_bookmarks_table [of lib uuid now fault bd tbl]
proof (elim disjE conjE exE)
  assume "snd (post_bookmarks lib uuid now fault bd tbl) = tbl"
  with a b show ?thesis by simp
next
  fix u t
  assume s: "snd (post_bookmarks lib uuid now fault bd tbl) =
        tbl @ [\<lparr>row_id = uuid, row_url = u, row_title = t,
                 row_description = bind_param lib (js_or lib (description bd) JNull),
                 row_created_at = now\<rparr>]"
  from b find_append_present [OF a] show ?thesis
    unfolding s by simp
qed

lemma put_bookmark_created_at:
  assumes a: "find (\<lambda>x. row_id x = i) tbl = Some r"
    and b: "find (\<lambda>x. row_id x = i) (snd (put_bookmark lib fault1 fault2 j bd tbl)) = Some r'"
  shows "row_created_at r' = row_created_at r"
  using put_bookmark_table [of lib fault1 fault2 j bd tbl]
proof (elim disjE conjE exE)
  assume "snd (put_bookmark lib fault1 fault2 j bd tbl) = tbl"
  with a b show ?thesis by simp
next
  fix r0 :: row and u t
  let ?f = "\<lambda>x. x\<lparr>row_url := u, row_title := t,
                   row_description :=
                     (if nullish (description bd) then row_description r0
                      else bind_param lib (description bd))\<rparr>"
  assume s: "snd (put_bookmark lib fault1 fault2 j bd tbl) =
      map (\<lambda>x. if row_id x = j then ?f x else x) tbl"
  show ?thesis
  proof (cases "i = j")
    case True
    have "find (\<lambda>x. row_id x = j) (map (\<lambda>x. if row_id x = j then ?f x else x) tbl) =
        map_option ?f (find (\<lambda>x. row_id x = j) tbl)"
      by (rule find_map_same) simp
    with a b True have "r' = ?f r"
      unfolding s by simp
    then show ?thesis by simp
  next
    case False
    have "find (\<lambda>x. row_id x = i) (map (\<lambda>x. if row_id x = j then ?f x else x) tbl) =
        find (\<lambda>x. row_id x = i) tbl"
      using False by (rule find_map_other [rotated]) simp
    with a b show ?thesis
      unfolding s by simp
  qed
qed

lemma delete_bookmark_created_at:
  assumes a: "find (\<lambda>x. row_id x = i) tbl = Some r"
    and b: "find (\<lambda>x. row_id x = i) (snd (delete_bookmark fault j tbl)) = Some r'"
  shows "row_created_at r' = row_created_at r"
proof (cases "i = j")
  case True
  with a b show ?thesis
    by (simp add: delete_bookmark_def sql_delete_def find_filter_same split: if_splits)
next
  case False
  with a b show ?thesis
    by (simp add: delete_bookmark_def sql_delete_def find_filter_other split: if_splits)
qed

lemma handle_created_at:
  assumes a: "find (\<lambda>x. row_id x = i) tbl = Some r"
    and b: "find (\<lambda>x. row_id x = i) (snd (handle lib rq tbl)) = Some r'"
  shows "row_created_at r' = row_created_at r"
proof (cases rq)
  case (Create uuid now fault bd)
  with b post_bookmarks_created_at [OF a, of lib uuid now fault bd r'] show ?thesis
    by simp
next
  case (List fault)
  with a b show ?thesis
    by (simp add: get_bookmarks_def sql_select_all_def split: if_splits)
next
  case (Get fault j)
  with a b show ?thesis
    by (simp add: get_bookmark_def sql_select_by_id_def split: if_splits option.splits)
next
  case (Update fault1 fault2 j bd)
  with b put_bookmark_created_at [OF a, of lib fault1 fault2 j bd r'] show ?thesis
    by simp
next
  case (Delete fault j)
  from a b [unfolded Delete handle.simps] show ?thesis
    by (rule delete_bookmark_created_at)
qed

section \<open>Create: the record of the response\<close>

text \<open>
  C2 at a concrete request. The body is valid and omits the description. The handler
  answers 201 and persists a row whose description is \<^verbatim>\<open>NULL\<close>
  (\<^verbatim>\<open>description || null\<close> in the parameters of the insert), but the record of the
  response carries the description of the request as it came, \<^verbatim>\<open>undefined\<close>, which
  the JSON serialisation drops: the response has no description, where the claim has
  \<^verbatim>\<open>null\<close>.
\<close>

theorem post_bookmarks_omitted_description:
  "post_bookmarks
     \<lparr>isURL = (\<lambda>s. s = ''https://example.com''), number_falsy = (\<lambda>n :: unit. True),
      number_string = (\<lambda>n. ''0''), number_text = (\<lambda>n. ''0''), array_string = (\<lambda>xs. [])\<rparr>
     ''b1'' ''2024-01-01T00:00:00.000Z''
     False \<lparr>url = JString ''https://example.com'', title = JString ''Example'',
             description = JUndefined\<rparr> []
   = (\<lparr>status = 201,
       payload = Bookmark \<lparr>bm_id = JString ''b1'', bm_url = JString ''https://example.com'',
                           bm_title = JString ''Example'', bm_description = JUndefined,
                           bm_created_at = JString ''2024-01-01T00:00:00.000Z''\<rparr>\<rparr>,
      [\<lparr>row_id = ''b1'', row_url = ''https://example.com'', row_title = ''Example'',
        row_description = None, row_created_at = ''2024-01-01T00:00:00.000Z''\<rparr>])
   \<and> (JUndefined :: unit jsval) \<noteq> JNull"
  by (simp add: post_bookmarks_def validate_create_def chain_isURL_def chain_notEmpty_def
        sql_insert_def js_or_def)

section \<open>Create: a body the chains do not reject\<close>

text \<open>
  C5 at a concrete request. The body has the empty array for the url and for the title:
  the url is not a URL and the title holds nothing. The validators run once for each
  element of an array, so not at all here, and no error is reported. The handler answers
  201, not 400, and the insert writes a row whose url and title are the text
  \<^verbatim>\<open>[object Object]\<close>: the table is not the one before the request.
\<close>

theorem post_bookmarks_empty_arrays:
  "validate_create
     \<lparr>isURL = (\<lambda>s. s = ''https://example.com''), number_falsy = (\<lambda>n :: unit. True),
      number_string = (\<lambda>n. ''0''), number_text = (\<lambda>n. ''0''), array_string = (\<lambda>xs. [])\<rparr>
     \<lparr>url = JArray [], title = JArray [], description = JUndefined\<rparr> = []
   \<and> post_bookmarks
     \<lparr>isURL = (\<lambda>s. s = ''https://example.com''), number_falsy = (\<lambda>n :: unit. True),
      number_string = (\<lambda>n. ''0''), number_text = (\<lambda>n. ''0''), array_string = (\<lambda>xs. [])\<rparr>
     ''b1'' ''2024-01-01T00:00:00.000Z''
     False \<lparr>url = JArray [], title = JArray [], description = JUndefined\<rparr> []
   = (\<lparr>status = 201,
       payload = Bookmark \<lparr>bm_id = JString ''b1'', bm_url = JArray [],
                           bm_title = JArray [], bm_description = JUndefined,
                           bm_created_at = JString ''2024-01-01T00:00:00.000Z''\<rparr>\<rparr>,
      [\<lparr>row_id = ''b1'', row_url = ''[object Object]'', row_title = ''[object Object]'',
        row_description = None, row_created_at = ''2024-01-01T00:00:00.000Z''\<rparr>])"
  by (simp add: post_bookmarks_def validate_create_def chain_isURL_def chain_notEmpty_def
        sql_insert_def js_or_def)

section \<open>Create: the empty description\<close>

text \<open>
  C9. A create request that passes validation and supplies the empty string as the
  description persists a row whose description is \<^verbatim>\<open>NULL\<close>: the table it leaves is the
  one the same request with the description omitted leaves, and reading the row back
  gives the description \<^verbatim>\<open>null\<close>. Stated for a create whose generated id is not in
  the table and whose storage call does not fault (otherwise no row is persisted), and
  for a URL predicate that rejects the empty string.
\<close>

theorem post_bookmarks_empty_description:
  assumes e: "\<not> isURL lib []" and v: "validate_create lib b = []"
    and f: "uuid \<notin> row_id ` set tbl" and d: "description b = JString []"
  shows "status (fst (post_bookmarks lib uuid now False b tbl)) = 201
    \<and> (\<exists>r. find (\<lambda>r. row_id r = uuid) (snd (post_bookmarks lib uuid now False b tbl)) = Some r
          \<and> row_description r = None)
    \<and> snd (post_bookmarks lib uuid now False b tbl) =
        snd (post_bookmarks lib uuid now False (b\<lparr>description := JUndefined\<rparr>) tbl)
    \<and> (\<exists>u t. bind_param lib (url b) = Some u \<and> bind_param lib (title b) = Some t
          \<and> get_bookmark False uuid (snd (post_bookmarks lib uuid now False b tbl)) =
             (\<lparr>status = 200,
               payload = Bookmark \<lparr>bm_id = JString uuid, bm_url = JString u,
                                   bm_title = JString t, bm_description = JNull,
                                   bm_created_at = JString now\<rparr>\<rparr> :: 'a response,
              snd (post_bookmarks lib uuid now False b tbl)))"
proof -
  from post_bookmarks_created [OF e v f, of now]
  obtain u t where u: "bind_param lib (url b) = Some u"
    and t: "bind_param lib (title b) = Some t"
    and p0: "post_bookmarks lib uuid now False b tbl =
     (\<lparr>status = 201,
       payload = Bookmark \<lparr>bm_id = JString uuid, bm_url = url b, bm_title = title b,
                           bm_description = description b, bm_created_at = JString now\<rparr>\<rparr>,
      tbl @ [\<lparr>row_id = uuid, row_url = u, row_title = t,
               row_description = bind_param lib (js_or lib (description b) JNull),
               row_created_at = now\<rparr>])"
    by blast
  let ?r = "\<lparr>row_id = uuid, row_url = u, row_title = t,
             row_description = None, row_created_at = now\<rparr>"
  have p: "post_bookmarks lib uuid now False b tbl =
     (\<lparr>status = 201,
       payload = Bookmark \<lparr>bm_id = JString uuid, bm_url = url b, bm_title = title b,
                           bm_description = description b, bm_created_at = JString now\<rparr>\<rparr>,
      tbl @ [?r])"
    using p0 d by (simp add: js_or_def)
  have v': "validate_create lib (b\<lparr>description := JUndefined\<rparr>) = []"
    using v by (simp add: validate_create_Nil)
  have "snd (post_bookmarks lib uuid now False (b\<lparr>description := JUndefined\<rparr>) tbl) =
      tbl @ [\<lparr>row_id = uuid, row_url = u, row_title = t,
               row_description = bind_param lib (js_or lib JUndefined JNull),
               row_created_at = now\<rparr>]"
    using v' f u t by (simp add: post_bookmarks_def sql_insert_fresh)
  then have p': "snd (post_bookmarks lib uuid now False (b\<lparr>description := JUndefined\<rparr>) tbl) =
      tbl @ [?r]"
    by (simp add: js_or_def)
  have fr: "find (\<lambda>r. row_id r = uuid) (tbl @ [?r]) = Some ?r"
    using f by (simp add: find_append_fresh)
  have g: "get_bookmark False uuid (tbl @ [?r]) =
        (\<lparr>status = 200, payload = Bookmark (row_object ?r)\<rparr> :: 'a response, tbl @ [?r])"
    by (rule get_bookmark_found [OF fr])
  have ro: "(row_object ?r :: 'a bookmark) =
      \<lparr>bm_id = JString uuid, bm_url = JString u, bm_title = JString t,
       bm_description = JNull, bm_created_at = JString now\<rparr>"
    by (simp add: row_object_def)
  show ?thesis
  proof (intro conjI)
    show "status (fst (post_bookmarks lib uuid now False b tbl)) = 201"
      by (simp add: p)
    show "\<exists>r. find (\<lambda>r. row_id r = uuid) (snd (post_bookmarks lib uuid now False b tbl)) =
               Some r \<and> row_description r = None"
      using fr by (simp add: p)
    show "snd (post_bookmarks lib uuid now False b tbl) =
        snd (post_bookmarks lib uuid now False (b\<lparr>description := JUndefined\<rparr>) tbl)"
      by (simp only: p p' snd_conv)
    show "\<exists>u t. bind_param lib (url b) = Some u \<and> bind_param lib (title b) = Some t
          \<and> get_bookmark False uuid (snd (post_bookmarks lib uuid now False b tbl)) =
             (\<lparr>status = 200,
               payload = Bookmark \<lparr>bm_id = JString uuid, bm_url = JString u,
                                   bm_title = JString t, bm_description = JNull,
                                   bm_created_at = JString now\<rparr>\<rparr> :: 'a response,
              snd (post_bookmarks lib uuid now False b tbl))"
      using u t g unfolding p snd_conv ro by blast
  qed
qed

theorem post_bookmarks_empty_description_witness:
  "snd (post_bookmarks
          \<lparr>isURL = (\<lambda>s. s = ''https://example.com''), number_falsy = (\<lambda>n :: unit. True),
           number_string = (\<lambda>n. ''0''), number_text = (\<lambda>n. ''0''),
           array_string = (\<lambda>xs. [])\<rparr>
          ''b1'' ''2024-01-01T00:00:00.000Z''
          False \<lparr>url = JString ''https://example.com'', title = JString ''Example'',
                  description = JString []\<rparr> [])
   = [\<lparr>row_id = ''b1'', row_url = ''https://example.com'', row_title = ''Example'',
       row_description = None, row_created_at = ''2024-01-01T00:00:00.000Z''\<rparr>]"
proof -
  let ?lib = "\<lparr>isURL = (\<lambda>s. s = ''https://example.com''), number_falsy = (\<lambda>n :: unit. True),
           number_string = (\<lambda>n. ''0''), number_text = (\<lambda>n. ''0''),
           array_string = (\<lambda>xs. [])\<rparr>"
  let ?b = "\<lparr>url = JString ''https://example.com'', title = JString ''Example'',
             description = JString []\<rparr> :: unit body"
  have e: "\<not> isURL ?lib []" by simp
  have v: "validate_create ?lib ?b = []"
    by (simp add: validate_create_def chain_isURL_def chain_notEmpty_def)
  have f: "''b1'' \<notin> row_id ` set []" by simp
  have d: "description ?b = JString []" by simp
  from post_bookmarks_empty_description [of ?lib ?b "''b1''" "[]", OF e v f d]
  have "snd (post_bookmarks ?lib ''b1'' ''2024-01-01T00:00:00.000Z'' False ?b []) =
        snd (post_bookmarks ?lib ''b1'' ''2024-01-01T00:00:00.000Z'' False
               (?b\<lparr>description := JUndefined\<rparr>) [])"
    by blast
  then show ?thesis
    by (simp add: post_bookmarks_def validate_create_def chain_isURL_def chain_notEmpty_def
        sql_insert_def js_or_def)
qed

section \<open>Get by id\<close>

text \<open>
  C8. A get-by-id request answers 200 with the record when a row matches the path id,
  404 with the message "Bookmark not found" when no row does (so for every id that is
  not in use), and 500 when the storage call faults; the table stays as it was.
\<close>

theorem get_bookmark_responses:
  "(fault \<longrightarrow> get_bookmark fault i tbl =
      (\<lparr>status = 500, payload = Message ''Database error''\<rparr>, tbl))
   \<and> (\<not> fault \<and> i \<notin> row_id ` set tbl \<longrightarrow> get_bookmark fault i tbl =
      (\<lparr>status = 404, payload = Message ''Bookmark not found''\<rparr>, tbl))
   \<and> (\<not> fault \<and> i \<in> row_id ` set tbl \<longrightarrow>
      (\<exists>r \<in> set tbl. row_id r = i \<and> get_bookmark fault i tbl =
         (\<lparr>status = 200, payload = Bookmark (row_object r)\<rparr>, tbl)))"
proof (intro conjI impI)
  assume fault
  then show "get_bookmark fault i tbl =
      (\<lparr>status = 500, payload = Message ''Database error''\<rparr>, tbl)"
    by (simp add: get_bookmark_def sql_select_by_id_def database_error_def)
next
  assume "\<not> fault \<and> i \<notin> row_id ` set tbl"
  then show "get_bookmark fault i tbl =
      (\<lparr>status = 404, payload = Message ''Bookmark not found''\<rparr>, tbl)"
    by (simp add: get_bookmark_def sql_select_by_id_def not_found_def find_absent)
next
  assume a: "\<not> fault \<and> i \<in> row_id ` set tbl"
  then obtain r where r: "find (\<lambda>r. row_id r = i) tbl = Some r"
    using find_present by blast
  then have "get_bookmark fault i tbl =
         (\<lparr>status = 200, payload = Bookmark (row_object r)\<rparr>, tbl)"
    using a by (simp add: get_bookmark_def sql_select_by_id_def)
  with find_row_id [OF r]
  show "\<exists>r \<in> set tbl. row_id r = i \<and> get_bookmark fault i tbl =
         (\<lparr>status = 200, payload = Bookmark (row_object r)\<rparr>, tbl)"
    by blast
qed

theorem get_bookmark_responses_witness:
  "get_bookmark False ''b1''
     [\<lparr>row_id = ''b1'', row_url = ''https://example.com'', row_title = ''Example'',
       row_description = None, row_created_at = ''2024-01-01T00:00:00.000Z''\<rparr>]
   = (\<lparr>status = 200,
       payload = Bookmark \<lparr>bm_id = JString ''b1'', bm_url = JString ''https://example.com'',
                           bm_title = JString ''Example'', bm_description = JNull,
                           bm_created_at = JString ''2024-01-01T00:00:00.000Z''\<rparr>\<rparr>,
      [\<lparr>row_id = ''b1'', row_url = ''https://example.com'', row_title = ''Example'',
        row_description = None, row_created_at = ''2024-01-01T00:00:00.000Z''\<rparr>])
   \<and> get_bookmark False ''b2''
     [\<lparr>row_id = ''b1'', row_url = ''https://example.com'', row_title = ''Example'',
       row_description = None, row_created_at = ''2024-01-01T00:00:00.000Z''\<rparr>]
   = (\<lparr>status = 404, payload = Message ''Bookmark not found''\<rparr>,
      [\<lparr>row_id = ''b1'', row_url = ''https://example.com'', row_title = ''Example'',
        row_description = None, row_created_at = ''2024-01-01T00:00:00.000Z''\<rparr>])
   \<and> get_bookmark True ''b1'' [] =
      (\<lparr>status = 500, payload = Message ''Database error''\<rparr>, [])"
  using get_bookmark_responses
    [of False "''b1''"
        "[\<lparr>row_id = ''b1'', row_url = ''https://example.com'', row_title = ''Example'',
           row_description = None, row_created_at = ''2024-01-01T00:00:00.000Z''\<rparr>]"]
    get_bookmark_responses
    [of False "''b2''"
        "[\<lparr>row_id = ''b1'', row_url = ''https://example.com'', row_title = ''Example'',
           row_description = None, row_created_at = ''2024-01-01T00:00:00.000Z''\<rparr>]"]
    get_bookmark_responses [of True "''b1''" "[]"]
  by (simp add: row_object_def)

section \<open>Update: the merge\<close>

text \<open>
  C1, as stated, at a concrete input. The claim has every field supplied in the body take
  the supplied value. The body below passes validation and supplies the description with
  the value \<^verbatim>\<open>null\<close> for an existing bookmark whose description is "to read"; the
  response is 200, and the description of the record of the response and of the row
  persisted is still "to read", not the supplied \<^verbatim>\<open>null\<close>.
\<close>

theorem put_bookmark_supplied_null_counterexample:
  "validate_update
     \<lparr>isURL = (\<lambda>s. s = ''https://example.com''), number_falsy = (\<lambda>n :: unit. True),
      number_string = (\<lambda>n. ''0''), number_text = (\<lambda>n. ''0''), array_string = (\<lambda>xs. [])\<rparr>
     \<lparr>url = JUndefined, title = JUndefined, description = JNull\<rparr> = []
   \<and> put_bookmark
     \<lparr>isURL = (\<lambda>s. s = ''https://example.com''), number_falsy = (\<lambda>n :: unit. True),
      number_string = (\<lambda>n. ''0''), number_text = (\<lambda>n. ''0''), array_string = (\<lambda>xs. [])\<rparr>
     False False ''b7''
     \<lparr>url = JUndefined, title = JUndefined, description = JNull\<rparr>
     [\<lparr>row_id = ''b7'', row_url = ''https://example.com'', row_title = ''Example'',
       row_description = Some ''to read'', row_created_at = ''2024-05-05T10:00:00.000Z''\<rparr>]
   = (\<lparr>status = 200,
       payload = Bookmark \<lparr>bm_id = JString ''b7'', bm_url = JString ''https://example.com'',
                           bm_title = JString ''Example'',
                           bm_description = JString ''to read'',
                           bm_created_at = JString ''2024-05-05T10:00:00.000Z''\<rparr>\<rparr>,
      [\<lparr>row_id = ''b7'', row_url = ''https://example.com'', row_title = ''Example'',
        row_description = Some ''to read'',
        row_created_at = ''2024-05-05T10:00:00.000Z''\<rparr>])
   \<and> JString ''to read'' \<noteq>
       description (\<lparr>url = JUndefined, title = JUndefined, description = JNull\<rparr>
                      :: unit body)"
  by (simp add: put_bookmark_def validate_update_def chain_isURL_def chain_notEmpty_def
        sql_select_by_id_def sql_update_def updatedBookmark_def row_object_def
        js_coalesce_def)

text \<open>
  C1, amended. For every update request on an existing bookmark id whose body passes
  validation (and whose storage calls do not fault), the handler answers 200 with the
  merged record: every field supplied with a value other than \<^verbatim>\<open>null\<close> takes the
  supplied value, every field absent from the body or supplied as \<^verbatim>\<open>null\<close> keeps its
  prior value, and id and created_at are those of the existing record. It persists the
  merge: in the row of that id, a field supplied as a string holds that string and a
  field absent or supplied as \<^verbatim>\<open>null\<close> keeps its prior value, id and created_at are
  unchanged, and the rows of other ids are as before. In particular an update supplying
  only a description "x" leaves url and title at their prior values and changes only the
  description.
\<close>

theorem put_bookmark_merges:
  assumes v: "validate_update lib b = []"
    and r: "find (\<lambda>x. row_id x = i) tbl = Some r"
  shows "\<exists>bm r'. fst (put_bookmark lib False False i b tbl) =
            \<lparr>status = 200, payload = Bookmark bm\<rparr>
      \<and> bm_id bm = JString i \<and> bm_created_at bm = JString (row_created_at r)
      \<and> (\<not> nullish (url b) \<longrightarrow> bm_url bm = url b)
      \<and> (nullish (url b) \<longrightarrow> bm_url bm = JString (row_url r))
      \<and> (\<not> nullish (title b) \<longrightarrow> bm_title bm = title b)
      \<and> (nullish (title b) \<longrightarrow> bm_title bm = JString (row_title r))
      \<and> (\<not> nullish (description b) \<longrightarrow> bm_description bm = description b)
      \<and> (nullish (description b) \<longrightarrow> bm_description bm = bm_description (row_object r))
      \<and> find (\<lambda>x. row_id x = i) (snd (put_bookmark lib False False i b tbl)) = Some r'
      \<and> row_id r' = i \<and> row_created_at r' = row_created_at r
      \<and> (\<forall>s. url b = JString s \<longrightarrow> row_url r' = s)
      \<and> (nullish (url b) \<longrightarrow> row_url r' = row_url r)
      \<and> (\<forall>s. title b = JString s \<longrightarrow> row_title r' = s)
      \<and> (nullish (title b) \<longrightarrow> row_title r' = row_title r)
      \<and> (\<forall>s. description b = JString s \<longrightarrow> row_description r' = Some s)
      \<and> (nullish (description b) \<longrightarrow> row_description r' = row_description r)
      \<and> (\<forall>j. j \<noteq> i \<longrightarrow>
            find (\<lambda>x. row_id x = j) (snd (put_bookmark lib False False i b tbl)) =
            find (\<lambda>x. row_id x = j) tbl)"
proof -
  let ?d = "if nullish (description b) then row_description r
            else bind_param lib (description b)"
  let ?bm = "\<lparr>bm_id = JString (row_id r),
          bm_url = js_coalesce (url b) (JString (row_url r)),
          bm_title = js_coalesce (title b) (JString (row_title r)),
          bm_description = js_coalesce (description b)
            (case row_description r of None \<Rightarrow> JNull | Some d \<Rightarrow> JString d),
          bm_created_at = JString (row_created_at r)\<rparr>"
  obtain u where u: "bind_param lib (js_coalesce (url b) (JString (row_url r))) = Some u"
    and u1: "nullish (url b) \<longrightarrow> u = row_url r" and u2: "\<forall>s. url b = JString s \<longrightarrow> u = s"
    using bind_coalesce [of lib "url b" "row_url r"] by blast
  obtain t where t: "bind_param lib (js_coalesce (title b) (JString (row_title r))) = Some t"
    and t1: "nullish (title b) \<longrightarrow> t = row_title r" and t2: "\<forall>s. title b = JString s \<longrightarrow> t = s"
    using bind_coalesce [of lib "title b" "row_title r"] by blast
  let ?f = "\<lambda>x. x\<lparr>row_url := u, row_title := t, row_description := ?d\<rparr>"
  let ?tbl' = "map (\<lambda>x. if row_id x = i then ?f x else x) tbl"
  have p: "put_bookmark lib False False i b tbl =
      (\<lparr>status = 200, payload = Bookmark ?bm\<rparr>, ?tbl')"
    using put_bookmark_updated [OF v r] u t by auto
  have "find (\<lambda>x. row_id x = i) ?tbl' = map_option ?f (find (\<lambda>x. row_id x = i) tbl)"
    by (rule find_map_same) simp
  then have fr: "find (\<lambda>x. row_id x = i) ?tbl' = Some (?f r)"
    by (simp add: r)
  have other: "find (\<lambda>x. row_id x = j) ?tbl' = find (\<lambda>x. row_id x = j) tbl" if "j \<noteq> i" for j
    using that by (rule find_map_other [rotated]) simp
  have ri: "row_id r = i"
    using find_row_id [OF r] by simp
  show ?thesis
  proof (rule exI [of _ ?bm], rule exI [of _ "?f r"], intro conjI)
    show "fst (put_bookmark lib False False i b tbl) =
            \<lparr>status = 200, payload = Bookmark ?bm\<rparr>"
      by (simp only: p fst_conv)
    show "bm_id ?bm = JString i" "bm_created_at ?bm = JString (row_created_at r)"
      by (simp_all add: ri)
    show "\<not> nullish (url b) \<longrightarrow> bm_url ?bm = url b"
      "nullish (url b) \<longrightarrow> bm_url ?bm = JString (row_url r)"
      "\<not> nullish (title b) \<longrightarrow> bm_title ?bm = title b"
      "nullish (title b) \<longrightarrow> bm_title ?bm = JString (row_title r)"
      "\<not> nullish (description b) \<longrightarrow> bm_description ?bm = description b"
      "nullish (description b) \<longrightarrow> bm_description ?bm = bm_description (row_object r)"
      by (simp_all add: js_coalesce_def row_object_def)
    show "find (\<lambda>x. row_id x = i) (snd (put_bookmark lib False False i b tbl)) =
            Some (?f r)"
      by (simp only: p snd_conv fr)
    show "row_id (?f r) = i" "row_created_at (?f r) = row_created_at r"
      by (simp_all add: ri)
    show "\<forall>s. url b = JString s \<longrightarrow> row_url (?f r) = s"
      "nullish (url b) \<longrightarrow> row_url (?f r) = row_url r"
      using u1 u2 by simp_all
    show "\<forall>s. title b = JString s \<longrightarrow> row_title (?f r) = s"
      "nullish (title b) \<longrightarrow> row_title (?f r) = row_title r"
      using t1 t2 by simp_all
    show "\<forall>s. description b = JString s \<longrightarrow> row_description (?f r) = Some s"
      "nullish (description b) \<longrightarrow> row_description (?f r) = row_description r"
      by auto
    show "\<forall>j. j \<noteq> i \<longrightarrow>
            find (\<lambda>x. row_id x = j) (snd (put_bookmark lib False False i b tbl)) =
            find (\<lambda>x. row_id x = j) tbl"
      using other by (simp only: p snd_conv) blast
  qed
qed

theorem put_bookmark_merges_witness:
  "put_bookmark
     \<lparr>isURL = (\<lambda>s. s = ''https://example.com''), number_falsy = (\<lambda>n :: unit. True),
      number_string = (\<lambda>n. ''0''), number_text = (\<lambda>n. ''0''), array_string = (\<lambda>xs. [])\<rparr>
     False False ''b1''
     \<lparr>url = JUndefined, title = JUndefined, description = JString ''x''\<rparr>
     [\<lparr>row_id = ''b1'', row_url = ''https://example.com'', row_title = ''Example'',
       row_description = None, row_created_at = ''2024-01-01T00:00:00.000Z''\<rparr>]
   = (\<lparr>status = 200,
       payload = Bookmark \<lparr>bm_id = JString ''b1'', bm_url = JString ''https://example.com'',
                           bm_title = JString ''Example'', bm_description = JString ''x'',
                           bm_created_at = JString ''2024-01-01T00:00:00.000Z''\<rparr>\<rparr>,
      [\<lparr>row_id = ''b1'', row_url = ''https://example.com'', row_title = ''Example'',
        row_description = Some ''x'', row_created_at = ''2024-01-01T00:00:00.000Z''\<rparr>])"
proof -
  let ?lib = "\<lparr>isURL = (\<lambda>s. s = ''https://example.com''), number_falsy = (\<lambda>n :: unit. True),
      number_string = (\<lambda>n. ''0''), number_text = (\<lambda>n. ''0''), array_string = (\<lambda>xs. [])\<rparr>"
  let ?b = "\<lparr>url = JUndefined, title = JUndefined, description = JString ''x''\<rparr>
            :: unit body"
  let ?r = "\<lparr>row_id = ''b1'', row_url = ''https://example.com'', row_title = ''Example'',
       row_description = None, row_created_at = ''2024-01-01T00:00:00.000Z''\<rparr>"
  have v: "validate_update ?lib ?b = []"
    by (simp add: validate_update_def chain_isURL_def chain_notEmpty_def)
  have r: "find (\<lambda>x. row_id x = ''b1'') [?r] = Some ?r" by simp
  from put_bookmark_merges [of ?lib ?b "''b1''" "[?r]" ?r, OF v r]
  obtain bm where "fst (put_bookmark ?lib False False ''b1'' ?b [?r]) =
            \<lparr>status = 200, payload = Bookmark bm\<rparr>"
    by blast
  then have "status (fst (put_bookmark ?lib False False ''b1'' ?b [?r])) = 200"
    by simp
  then show ?thesis
    by (simp add: put_bookmark_def validate_update_def chain_isURL_def chain_notEmpty_def
        sql_select_by_id_def sql_update_def updatedBookmark_def row_object_def
        js_coalesce_def)
qed

section \<open>Update: a body the chains do not reject\<close>

text \<open>
  C6 at a concrete request. The body supplies the empty array as the title of an
  existing bookmark: the title is present and holds nothing. The validator runs once for
  each element of an array, so not at all here, and no error is reported. The handler
  looks the row up, writes it and answers 200, not 400: the title of the row is now the
  text \<^verbatim>\<open>[object Object]\<close>.
\<close>

theorem put_bookmark_empty_array_title:
  "validate_update
     \<lparr>isURL = (\<lambda>s. s = ''https://example.com''), number_falsy = (\<lambda>n :: unit. True),
      number_string = (\<lambda>n. ''0''), number_text = (\<lambda>n. ''0''), array_string = (\<lambda>xs. [])\<rparr>
     \<lparr>url = JUndefined, title = JArray [], description = JUndefined\<rparr> = []
   \<and> put_bookmark
     \<lparr>isURL = (\<lambda>s. s = ''https://example.com''), number_falsy = (\<lambda>n :: unit. True),
      number_string = (\<lambda>n. ''0''), number_text = (\<lambda>n. ''0''), array_string = (\<lambda>xs. [])\<rparr>
     False False ''b1''
     \<lparr>url = JUndefined, title = JArray [], description = JUndefined\<rparr>
     [\<lparr>row_id = ''b1'', row_url = ''https://example.com'', row_title = ''Example'',
       row_description = None, row_created_at = ''2024-01-01T00:00:00.000Z''\<rparr>]
   = (\<lparr>status = 200,
       payload = Bookmark \<lparr>bm_id = JString ''b1'', bm_url = JString ''https://example.com'',
                           bm_title = JArray [], bm_description = JNull,
                           bm_created_at = JString ''2024-01-01T00:00:00.000Z''\<rparr>\<rparr>,
      [\<lparr>row_id = ''b1'', row_url = ''https://example.com'',
        row_title = ''[object Object]'', row_description = None,
        row_created_at = ''2024-01-01T00:00:00.000Z''\<rparr>])"
  by (simp add: put_bookmark_def validate_update_def chain_isURL_def chain_notEmpty_def
        sql_select_by_id_def sql_update_def updatedBookmark_def row_object_def
        js_coalesce_def)

section \<open>Update: a description supplied as null\<close>

text \<open>
  C10. An update request on an existing bookmark that supplies the description with the
  value \<^verbatim>\<open>null\<close> keeps the prior description, in the row persisted and in the record of
  the response: the update cannot clear a description. Stated for a body that passes
  validation and storage calls that do not fault (otherwise the handler answers 400 or
  500 and writes nothing).
\<close>

theorem put_bookmark_null_description:
  assumes v: "validate_update lib b = []" and d: "description b = JNull"
    and r: "find (\<lambda>r. row_id r = i) tbl = Some r"
  shows "(\<exists>bm. fst (put_bookmark lib False False i b tbl) =
               \<lparr>status = 200, payload = Bookmark bm\<rparr>
             \<and> bm_description bm = bm_description (row_object r))
    \<and> (\<exists>r'. find (\<lambda>r. row_id r = i) (snd (put_bookmark lib False False i b tbl)) = Some r'
             \<and> row_description r' = row_description r)"
proof -
  from put_bookmark_updated [OF v r]
  obtain u t where p0: "put_bookmark lib False False i b tbl =
     (\<lparr>status = 200,
       payload = Bookmark
         \<lparr>bm_id = JString (row_id r),
          bm_url = js_coalesce (url b) (JString (row_url r)),
          bm_title = js_coalesce (title b) (JString (row_title r)),
          bm_description = js_coalesce (description b)
            (case row_description r of None \<Rightarrow> JNull | Some d \<Rightarrow> JString d),
          bm_created_at = JString (row_created_at r)\<rparr>\<rparr>,
      map (\<lambda>x. if row_id x = i
                then x\<lparr>row_url := u, row_title := t,
                       row_description :=
                         (if nullish (description b) then row_description r
                          else bind_param lib (description b))\<rparr>
                else x) tbl)"
    by blast
  let ?f = "\<lambda>x. x\<lparr>row_url := u, row_title := t, row_description := row_description r\<rparr>"
  let ?bm = "\<lparr>bm_id = JString (row_id r),
          bm_url = js_coalesce (url b) (JString (row_url r)),
          bm_title = js_coalesce (title b) (JString (row_title r)),
          bm_description =
            (case row_description r of None \<Rightarrow> JNull | Some d \<Rightarrow> JString d),
          bm_created_at = JString (row_created_at r)\<rparr>"
  have p: "put_bookmark lib False False i b tbl =
      (\<lparr>status = 200, payload = Bookmark ?bm\<rparr>,
       map (\<lambda>x. if row_id x = i then ?f x else x) tbl)"
    using p0 d by (simp add: js_coalesce_def)
  have "find (\<lambda>r. row_id r = i) (map (\<lambda>x. if row_id x = i then ?f x else x) tbl) =
          map_option ?f (find (\<lambda>r. row_id r = i) tbl)"
    by (rule find_map_same) simp
  then have fr: "find (\<lambda>r. row_id r = i) (snd (put_bookmark lib False False i b tbl)) =
      Some (?f r)"
    by (simp add: p r)
  have "bm_description ?bm = bm_description (row_object r)"
    by (simp add: row_object_def)
  then show ?thesis
    using fr by (simp add: p)
qed

theorem put_bookmark_null_description_witness:
  "put_bookmark
     \<lparr>isURL = (\<lambda>s. s = ''https://example.com''), number_falsy = (\<lambda>n :: unit. True),
      number_string = (\<lambda>n. ''0''), number_text = (\<lambda>n. ''0''), array_string = (\<lambda>xs. [])\<rparr>
     False False ''b1''
     \<lparr>url = JUndefined, title = JString ''Renamed'', description = JNull\<rparr>
     [\<lparr>row_id = ''b1'', row_url = ''https://example.com'', row_title = ''Example'',
       row_description = Some ''notes'', row_created_at = ''2024-01-01T00:00:00.000Z''\<rparr>]
   = (\<lparr>status = 200,
       payload = Bookmark \<lparr>bm_id = JString ''b1'', bm_url = JString ''https://example.com'',
                           bm_title = JString ''Renamed'', bm_description = JString ''notes'',
                           bm_created_at = JString ''2024-01-01T00:00:00.000Z''\<rparr>\<rparr>,
      [\<lparr>row_id = ''b1'', row_url = ''https://example.com'', row_title = ''Renamed'',
        row_description = Some ''notes'', row_created_at = ''2024-01-01T00:00:00.000Z''\<rparr>])"
proof -
  let ?lib = "\<lparr>isURL = (\<lambda>s. s = ''https://example.com''), number_falsy = (\<lambda>n :: unit. True),
      number_string = (\<lambda>n. ''0''), number_text = (\<lambda>n. ''0''), array_string = (\<lambda>xs. [])\<rparr>"
  let ?b = "\<lparr>url = JUndefined, title = JString ''Renamed'', description = JNull\<rparr>
            :: unit body"
  let ?r = "\<lparr>row_id = ''b1'', row_url = ''https://example.com'', row_title = ''Example'',
       row_description = Some ''notes'', row_created_at = ''2024-01-01T00:00:00.000Z''\<rparr>"
  have v: "validate_update ?lib ?b = []"
    by (simp add: validate_update_def chain_isURL_def chain_notEmpty_def)
  have d: "description ?b = JNull" by simp
  have r: "find (\<lambda>r. row_id r = ''b1'') [?r] = Some ?r" by simp
  from put_bookmark_null_description [of ?lib ?b "''b1''" "[?r]" ?r, OF v d r]
  have "\<exists>bm. fst (put_bookmark ?lib False False ''b1'' ?b [?r]) =
               \<lparr>status = 200, payload = Bookmark bm\<rparr>
             \<and> bm_description bm = bm_description (row_object ?r)"
    by blast
  then have "status (fst (put_bookmark ?lib False False ''b1'' ?b [?r])) = 200"
    by auto
  then show ?thesis
    by (simp add: put_bookmark_def validate_update_def chain_isURL_def chain_notEmpty_def
        sql_select_by_id_def sql_update_def updatedBookmark_def row_object_def
        js_coalesce_def)
qed

section \<open>Delete\<close>

text \<open>
  C4. A delete request whose path id matches no row (zero rows affected) is answered 404
  and leaves the table as it was. Otherwise it is answered 204 with an empty body and the
  rows of that id are gone, the other rows kept; a second delete of the same id is then
  answered 404.
\<close>

theorem delete_bookmark_responses:
  "(i \<notin> row_id ` set tbl \<longrightarrow>
      (delete_bookmark False i tbl :: 'n response \<times> table) =
        (\<lparr>status = 404, payload = Message ''Bookmark not found''\<rparr>, tbl))
   \<and> (i \<in> row_id ` set tbl \<longrightarrow>
      (delete_bookmark False i tbl :: 'n response \<times> table) =
        (\<lparr>status = 204, payload = Empty\<rparr>, filter (\<lambda>r. row_id r \<noteq> i) tbl)
      \<and> i \<notin> row_id ` set (snd (delete_bookmark False i tbl :: 'n response \<times> table))
      \<and> set (snd (delete_bookmark False i tbl :: 'n response \<times> table)) = {r \<in> set tbl. row_id r \<noteq> i}
      \<and> delete_bookmark False i (snd (delete_bookmark False i tbl :: 'n response \<times> table)) =
        (\<lparr>status = 404, payload = Message ''Bookmark not found''\<rparr>,
         snd (delete_bookmark False i tbl :: 'n response \<times> table)))"
proof (intro conjI impI)
  assume "i \<notin> row_id ` set tbl"
  then show "(delete_bookmark False i tbl :: 'n response \<times> table) =
        (\<lparr>status = 404, payload = Message ''Bookmark not found''\<rparr>, tbl)"
    by (rule delete_bookmark_missing)
next
  assume p: "i \<in> row_id ` set tbl"
  show d: "(delete_bookmark False i tbl :: 'n response \<times> table) =
        (\<lparr>status = 204, payload = Empty\<rparr>, filter (\<lambda>r. row_id r \<noteq> i) tbl)"
    using p by (rule delete_bookmark_present)
  show gone: "i \<notin> row_id ` set (snd (delete_bookmark False i tbl :: 'n response \<times> table))"
    by (auto simp: d)
  show "set (snd (delete_bookmark False i tbl :: 'n response \<times> table)) = {r \<in> set tbl. row_id r \<noteq> i}"
    by (simp add: d)
  show "delete_bookmark False i (snd (delete_bookmark False i tbl :: 'n response \<times> table)) =
        (\<lparr>status = 404, payload = Message ''Bookmark not found''\<rparr>,
         snd (delete_bookmark False i tbl :: 'n response \<times> table))"
    using gone by (rule delete_bookmark_missing)
qed

theorem delete_bookmark_responses_witness:
  "(delete_bookmark False ''b1''
     [\<lparr>row_id = ''b1'', row_url = ''https://example.com'', row_title = ''Example'',
       row_description = None, row_created_at = ''2024-01-01T00:00:00.000Z''\<rparr>]
      :: unit response \<times> table)
   = (\<lparr>status = 204, payload = Empty\<rparr>, [])
   \<and> (delete_bookmark False ''b1'' [] :: unit response \<times> table) =
     (\<lparr>status = 404, payload = Message ''Bookmark not found''\<rparr>, [])"
proof -
  let ?tbl = "[\<lparr>row_id = ''b1'', row_url = ''https://example.com'', row_title = ''Example'',
       row_description = None, row_created_at = ''2024-01-01T00:00:00.000Z''\<rparr>]"
  have p: "''b1'' \<in> row_id ` set ?tbl" by simp
  note t = delete_bookmark_responses [of "''b1''" ?tbl, where ?'n = unit]
  from t p have d: "(delete_bookmark False ''b1'' ?tbl :: unit response \<times> table) =
      (\<lparr>status = 204, payload = Empty\<rparr>, filter (\<lambda>r. row_id r \<noteq> ''b1'') ?tbl)"
    by blast
  from t p have "delete_bookmark False ''b1'' (snd (delete_bookmark False ''b1'' ?tbl :: unit response \<times> table)) =
        (\<lparr>status = 404, payload = Message ''Bookmark not found''\<rparr>,
         snd (delete_bookmark False ''b1'' ?tbl :: unit response \<times> table))"
    by blast
  with d show ?thesis by simp
qed

section \<open>Create, update the url, get\<close>

text \<open>
  C7. After a create whose body passes validation (the id generated is not in the table
  and no storage call faults, so that it is answered 201) and an update of the created
  id that supplies only a new url, a string that is a valid URL, a get-by-id of that id
  is answered 200 with a record that has the new url, the title unchanged from
  creation and the created_at unchanged from creation: the title and created_at are
  those a get-by-id returned before the update, the created_at is the one the create
  assigned, and the title is the text the title of the create request was stored as,
  which is that title itself when it is a string. Stated for a URL predicate that
  rejects the empty string.
\<close>

theorem create_update_get:
  assumes e: "\<not> isURL lib []" and v: "validate_create lib b = []"
    and f: "uuid \<notin> row_id ` set tbl" and u: "isURL lib u'"
  shows "status (fst (post_bookmarks lib uuid now False b tbl)) = 201
    \<and> status (fst (put_bookmark lib False False uuid
                      \<lparr>url = JString u', title = JUndefined, description = JUndefined\<rparr>
                      (snd (post_bookmarks lib uuid now False b tbl)))) = 200
    \<and> (\<exists>bm0 bm t.
          fst (get_bookmark False uuid (snd (post_bookmarks lib uuid now False b tbl))) =
            (\<lparr>status = 200, payload = Bookmark bm0\<rparr> :: 'a response)
        \<and> fst (get_bookmark False uuid
                 (snd (put_bookmark lib False False uuid
                         \<lparr>url = JString u', title = JUndefined, description = JUndefined\<rparr>
                         (snd (post_bookmarks lib uuid now False b tbl))))) =
            (\<lparr>status = 200, payload = Bookmark bm\<rparr> :: 'a response)
        \<and> bm_id bm = JString uuid \<and> bm_url bm = JString u'
        \<and> bm_title bm = bm_title bm0 \<and> bm_created_at bm = bm_created_at bm0
        \<and> bm_created_at bm = JString now
        \<and> bind_param lib (title b) = Some t \<and> bm_title bm = JString t
        \<and> (\<forall>s. title b = JString s \<longrightarrow> bm_title bm = title b))"
proof -
  from post_bookmarks_created [OF e v f, of now]
  obtain x t where x: "bind_param lib (url b) = Some x"
    and t: "bind_param lib (title b) = Some t"
    and p: "post_bookmarks lib uuid now False b tbl =
     (\<lparr>status = 201,
       payload = Bookmark \<lparr>bm_id = JString uuid, bm_url = url b, bm_title = title b,
                           bm_description = description b, bm_created_at = JString now\<rparr>\<rparr>,
      tbl @ [\<lparr>row_id = uuid, row_url = x, row_title = t,
               row_description = bind_param lib (js_or lib (description b) JNull),
               row_created_at = now\<rparr>])"
    by blast
  let ?r = "\<lparr>row_id = uuid, row_url = x, row_title = t,
             row_description = bind_param lib (js_or lib (description b) JNull),
             row_created_at = now\<rparr>"
  let ?b' = "\<lparr>url = JString u', title = JUndefined, description = JUndefined\<rparr> :: 'a body"
  let ?t1 = "tbl @ [?r]"
  let ?f = "\<lambda>x. x\<lparr>row_url := u', row_title := t,
                   row_description := bind_param lib (js_or lib (description b) JNull)\<rparr>"
  let ?t2 = "map (\<lambda>x. if row_id x = uuid then ?f x else x) ?t1"
  have fr: "find (\<lambda>r. row_id r = uuid) ?t1 = Some ?r"
    using f by (simp add: find_append_fresh)
  have v': "validate_update lib ?b' = []"
    using u by (simp add: validate_update_Nil)
  have q: "put_bookmark lib False False uuid ?b' ?t1 =
     (\<lparr>status = 200,
       payload = Bookmark
         \<lparr>bm_id = JString uuid, bm_url = JString u', bm_title = JString t,
          bm_description =
            (case bind_param lib (js_or lib (description b) JNull) of
               None \<Rightarrow> JNull | Some d \<Rightarrow> JString d),
          bm_created_at = JString now\<rparr>\<rparr>, ?t2)"
    using put_bookmark_updated [OF v' fr] by (simp add: js_coalesce_def)
  have "find (\<lambda>x. row_id x = uuid) ?t2 = map_option ?f (find (\<lambda>x. row_id x = uuid) ?t1)"
    by (rule find_map_same) simp
  then have fr2: "find (\<lambda>x. row_id x = uuid) ?t2 = Some (?f ?r)"
    by (simp only: fr option.map)
  have g1: "get_bookmark False uuid ?t1 =
        (\<lparr>status = 200, payload = Bookmark (row_object ?r)\<rparr> :: 'a response, ?t1)"
    by (rule get_bookmark_found [OF fr])
  have g2: "get_bookmark False uuid ?t2 =
        (\<lparr>status = 200, payload = Bookmark (row_object (?f ?r))\<rparr> :: 'a response, ?t2)"
    by (rule get_bookmark_found [OF fr2])
  have ro: "bm_id (row_object (?f ?r) :: 'a bookmark) = JString uuid"
    "bm_url (row_object (?f ?r) :: 'a bookmark) = JString u'"
    "bm_title (row_object (?f ?r) :: 'a bookmark) = bm_title (row_object ?r :: 'a bookmark)"
    "bm_created_at (row_object (?f ?r) :: 'a bookmark) =
       bm_created_at (row_object ?r :: 'a bookmark)"
    "bm_created_at (row_object (?f ?r) :: 'a bookmark) = JString now"
    "bm_title (row_object (?f ?r) :: 'a bookmark) = JString t"
    by (simp_all add: row_object_def)
  have ts: "\<forall>s. title b = JString s \<longrightarrow> bm_title (row_object (?f ?r) :: 'a bookmark) = title b"
    using t by (auto simp: row_object_def)
  show ?thesis
  proof (intro conjI)
    show "status (fst (post_bookmarks lib uuid now False b tbl)) = 201"
      by (simp add: p)
    show "status (fst (put_bookmark lib False False uuid ?b'
                      (snd (post_bookmarks lib uuid now False b tbl)))) = 200"
      by (simp only: p snd_conv q fst_conv) simp
    show "\<exists>bm0 bm t.
          fst (get_bookmark False uuid (snd (post_bookmarks lib uuid now False b tbl))) =
            (\<lparr>status = 200, payload = Bookmark bm0\<rparr> :: 'a response)
        \<and> fst (get_bookmark False uuid
                 (snd (put_bookmark lib False False uuid ?b'
                         (snd (post_bookmarks lib uuid now False b tbl))))) =
            (\<lparr>status = 200, payload = Bookmark bm\<rparr> :: 'a response)
        \<and> bm_id bm = JString uuid \<and> bm_url bm = JString u'
        \<and> bm_title bm = bm_title bm0 \<and> bm_created_at bm = bm_created_at bm0
        \<and> bm_created_at bm = JString now
        \<and> bind_param lib (title b) = Some t \<and> bm_title bm = JString t
        \<and> (\<forall>s. title b = JString s \<longrightarrow> bm_title bm = title b)"
      unfolding p snd_conv q g1 g2 fst_conv
      using ro ts t by blast
  qed
qed

theorem create_update_get_witness:
  "fst (get_bookmark False ''b1''
     (snd (put_bookmark
             \<lparr>isURL = (\<lambda>s. s = ''https://example.com'' \<or> s = ''https://example.org''),
              number_falsy = (\<lambda>n :: unit. True), number_string = (\<lambda>n. ''0''),
              number_text = (\<lambda>n. ''0''), array_string = (\<lambda>xs. [])\<rparr>
             False False ''b1''
             \<lparr>url = JString ''https://example.org'', title = JUndefined,
               description = JUndefined\<rparr>
             (snd (post_bookmarks
                     \<lparr>isURL = (\<lambda>s. s = ''https://example.com'' \<or> s = ''https://example.org''),
                      number_falsy = (\<lambda>n :: unit. True), number_string = (\<lambda>n. ''0''),
                      number_text = (\<lambda>n. ''0''), array_string = (\<lambda>xs. [])\<rparr>
                     ''b1'' ''2024-01-01T00:00:00.000Z'' False
                     \<lparr>url = JString ''https://example.com'', title = JString ''Example'',
                       description = JUndefined\<rparr> [])))))
   = (\<lparr>status = 200,
      payload = Bookmark \<lparr>bm_id = JString ''b1'', bm_url = JString ''https://example.org'',
                          bm_title = JString ''Example'', bm_description = JNull,
                          bm_created_at = JString ''2024-01-01T00:00:00.000Z''\<rparr>\<rparr>
      :: unit response)"
proof -
  let ?lib = "\<lparr>isURL = (\<lambda>s. s = ''https://example.com'' \<or> s = ''https://example.org''),
              number_falsy = (\<lambda>n :: unit. True), number_string = (\<lambda>n. ''0''),
              number_text = (\<lambda>n. ''0''), array_string = (\<lambda>xs. [])\<rparr>"
  let ?b = "\<lparr>url = JString ''https://example.com'', title = JString ''Example'',
             description = JUndefined\<rparr> :: unit body"
  have e: "\<not> isURL ?lib []" by simp
  have v: "validate_create ?lib ?b = []"
    by (simp add: validate_create_def chain_isURL_def chain_notEmpty_def)
  have f: "''b1'' \<notin> row_id ` set []" by simp
  have u: "isURL ?lib ''https://example.org''" by simp
  from create_update_get [of ?lib ?b "''b1''" "[]" "''https://example.org''"
      "''2024-01-01T00:00:00.000Z''", OF e v f u]
  have "status (fst (post_bookmarks ?lib ''b1'' ''2024-01-01T00:00:00.000Z'' False ?b []))
          = 201"
    by blast
  then show ?thesis
    by (simp add: post_bookmarks_def validate_create_def chain_isURL_def chain_notEmpty_def
        sql_insert_def js_or_def put_bookmark_def validate_update_def sql_select_by_id_def
        sql_update_def updatedBookmark_def row_object_def js_coalesce_def get_bookmark_def)
qed

section \<open>Invariants of the reachable tables\<close>

text \<open>
  C3. In every table reachable from the empty one by any sequence of requests (create,
  list, get, update, delete, with any JSON values in the bodies, any ids, timestamps and
  storage faults), each id is the id of at most one row, the url and the title of every
  row are not empty and not \<^verbatim>\<open>null\<close>, and created_at is assigned by the create that
  inserts the row and is modified by no request: a row that is there before and after a
  request has the same created_at. Stated for a URL predicate that rejects the empty
  string and a column text of numbers that is never empty.
\<close>

theorem reachable_invariants:
  assumes e: "\<not> isURL lib []" and n: "\<forall>n. number_text lib n \<noteq> []"
    and r: "reachable lib tbl"
  shows "(\<forall>i. length (filter (\<lambda>x. row_id x = i) tbl) \<le> 1)
    \<and> (\<forall>x \<in> set tbl. row_url x \<noteq> [] \<and> row_title x \<noteq> []
          \<and> bm_url (row_object x :: 'a bookmark) \<noteq> JNull
          \<and> bm_title (row_object x :: 'a bookmark) \<noteq> JNull)
    \<and> (\<forall>rq i x x'. find (\<lambda>y. row_id y = i) tbl = Some x
          \<and> find (\<lambda>y. row_id y = i) (snd (handle lib rq tbl)) = Some x'
          \<longrightarrow> row_created_at x' = row_created_at x)
    \<and> (\<forall>uuid now fault b.
          status (fst (post_bookmarks lib uuid now fault b tbl)) = 201 \<longrightarrow>
          (\<exists>x. find (\<lambda>y. row_id y = uuid)
                  (snd (post_bookmarks lib uuid now fault b tbl)) = Some x
             \<and> row_created_at x = now))"
proof (intro conjI allI impI ballI)
  note ok = reachable_table_ok [OF e n r]
  fix i
  show "length (filter (\<lambda>x. row_id x = i) tbl) \<le> 1"
    using ok distinct_at_most_one [of tbl i] by (simp add: table_ok_def)
next
  note ok = reachable_table_ok [OF e n r]
  fix x assume "x \<in> set tbl"
  with ok show "row_url x \<noteq> []" "row_title x \<noteq> []"
    by (auto simp: table_ok_def)
  show "bm_url (row_object x :: 'a bookmark) \<noteq> JNull"
    "bm_title (row_object x :: 'a bookmark) \<noteq> JNull"
    by (simp_all add: row_object_def)
next
  fix rq i x x'
  assume "find (\<lambda>y. row_id y = i) tbl = Some x
          \<and> find (\<lambda>y. row_id y = i) (snd (handle lib rq tbl)) = Some x'"
  then show "row_created_at x' = row_created_at x"
    using handle_created_at by blast
next
  fix uuid now fault b
  assume "status (fst (post_bookmarks lib uuid now fault b tbl)) = 201"
  from post_bookmarks_201 [OF this]
  obtain u t where f: "uuid \<notin> row_id ` set tbl"
    and s: "snd (post_bookmarks lib uuid now fault b tbl) =
        tbl @ [\<lparr>row_id = uuid, row_url = u, row_title = t,
                 row_description = bind_param lib (js_or lib (description b) JNull),
                 row_created_at = now\<rparr>]"
    by blast
  show "\<exists>x. find (\<lambda>y. row_id y = uuid)
                  (snd (post_bookmarks lib uuid now fault b tbl)) = Some x
             \<and> row_created_at x = now"
    unfolding s using f by (simp add: find_append_fresh)
qed

theorem reachable_invariants_witness:
  "reachable
     \<lparr>isURL = (\<lambda>s. s = ''https://example.com''), number_falsy = (\<lambda>n :: unit. True),
      number_string = (\<lambda>n. ''0''), number_text = (\<lambda>n. ''0''), array_string = (\<lambda>xs. [])\<rparr>
     [\<lparr>row_id = ''b1'', row_url = ''https://example.com'', row_title = ''[object Object]'',
       row_description = None, row_created_at = ''2024-01-01T00:00:00.000Z''\<rparr>]
   \<and> length (filter (\<lambda>x. row_id x = ''b1'')
       [\<lparr>row_id = ''b1'', row_url = ''https://example.com'',
         row_title = ''[object Object]'', row_description = None,
         row_created_at = ''2024-01-01T00:00:00.000Z''\<rparr>]) \<le> 1"
proof -
  let ?lib = "\<lparr>isURL = (\<lambda>s. s = ''https://example.com''), number_falsy = (\<lambda>n :: unit. True),
      number_string = (\<lambda>n. ''0''), number_text = (\<lambda>n. ''0''), array_string = (\<lambda>xs. [])\<rparr>"
  let ?b = "\<lparr>url = JString ''https://example.com'', title = JArray [],
             description = JUndefined\<rparr> :: unit body"
  let ?r = "\<lparr>row_id = ''b1'', row_url = ''https://example.com'',
       row_title = ''[object Object]'',
       row_description = None, row_created_at = ''2024-01-01T00:00:00.000Z''\<rparr>"
  have e: "\<not> isURL ?lib []" by simp
  have n: "\<forall>n. number_text ?lib n \<noteq> []" by simp
  have t: "snd (handle ?lib (Create ''b1'' ''2024-01-01T00:00:00.000Z'' False ?b) []) = [?r]"
    by (simp add: post_bookmarks_def validate_create_def chain_isURL_def chain_notEmpty_def
        sql_insert_def js_or_def)
  have r: "reachable ?lib [?r]"
    using reachable.request [OF reachable.initial, of ?lib
        "Create ''b1'' ''2024-01-01T00:00:00.000Z'' False ?b"]
    by (simp only: t)
  from reachable_invariants [OF e n r]
  have "length (filter (\<lambda>x. row_id x = ''b1'') [?r]) \<le> 1"
    by blast
  with r show ?thesis by (rule conjI)
qed

end
